theory Spec2Isabelle
  imports Complex_Main
begin

section \<open>JavaScript values\<close>

text \<open>
  A JavaScript string is a sequence of UTF-16 code units. Literals that are plain ASCII are
  written \<open>js ''...''\<close>; the Korean literals of the source are given as their code units.
\<close>

type_synonym js_string = "nat list"

definition js :: "string \<Rightarrow> js_string" where
  "js s = map of_char s"

text \<open>
  \<open>String.prototype.trim\<close> removes the ECMAScript WhiteSpace and LineTerminator code
  points from both ends: TAB, LF, VT, FF, CR, SP, NBSP, U+1680, U+2000..U+200A, U+2028,
  U+2029, U+202F, U+205F, U+3000 and U+FEFF.
\<close>

definition is_white_space :: "nat \<Rightarrow> bool" where
  "is_white_space c \<longleftrightarrow>
     c \<in> set [9, 10, 11, 12, 13, 32, 160, 5760, 8192, 8193, 8194, 8195, 8196, 8197,
       8198, 8199, 8200, 8201, 8202, 8232, 8233, 8239, 8287, 12288, 65279]"

definition trim :: "js_string \<Rightarrow> js_string" where
  "trim s = rev (dropWhile is_white_space (rev (dropWhile is_white_space s)))"

text \<open>\<open>Array.prototype.join\<close> on an array of strings.\<close>

fun join :: "js_string \<Rightarrow> js_string list \<Rightarrow> js_string" where
  "join sep [] = []"
| "join sep [x] = x"
| "join sep (x # y # ys) = x @ sep @ join sep (y # ys)"

text \<open>
  The values \<open>JSON.parse\<close> can return. A number is kept as a rational: this program only
  tests numbers for being zero and hands them on. An object is the list of its own
  properties (keys distinct).
\<close>

datatype json =
    JNull
  | JBool bool
  | JNumber rat
  | JString js_string
  | JArray "json list"
  | JObject "(js_string \<times> json) list"

text \<open>ToBoolean: \<open>null\<close>, \<open>false\<close>, \<open>0\<close> and \<open>""\<close> are falsy, every array and object is truthy.\<close>

fun truthy :: "json \<Rightarrow> bool" where
  "truthy JNull = False"
| "truthy (JBool b) = b"
| "truthy (JNumber n) = (n \<noteq> 0)"
| "truthy (JString s) = (s \<noteq> [])"
| "truthy (JArray xs) = True"
| "truthy (JObject kvs) = True"

text \<open>\<open>typeof v === "object"\<close>: true of \<open>null\<close>, of arrays and of objects.\<close>

fun typeof_object :: "json \<Rightarrow> bool" where
  "typeof_object JNull = True"
| "typeof_object (JArray xs) = True"
| "typeof_object (JObject kvs) = True"
| "typeof_object v = False"

text \<open>
  Reading a named property \<open>v.key\<close> of a non-null value; \<open>None\<close> is \<open>undefined\<close>. The keys
  this program reads are never an array index or \<open>length\<close>, so only an object has them.
\<close>

fun get_prop :: "json \<Rightarrow> js_string \<Rightarrow> json option" where
  "get_prop (JObject kvs) k = map_of kvs k"
| "get_prop v k = None"

text \<open>\<open>x || d\<close> and \<open>!!x\<close> for a property that may be \<open>undefined\<close>.\<close>

definition or_else :: "json option \<Rightarrow> json \<Rightarrow> json" where
  "or_else x d = (case x of None \<Rightarrow> d | Some v \<Rightarrow> if truthy v then v else d)"

definition to_boolean :: "json option \<Rightarrow> bool" where
  "to_boolean x = (case x of None \<Rightarrow> False | Some v \<Rightarrow> truthy v)"

text \<open>What a JavaScript call can throw in this program.\<close>

datatype exn = ApiError | TypeError | ReferenceError | DbError

section \<open>\<^verbatim>\<open>llm_spec.js\<close>: the orchestrator prompt\<close>

datatype direction = IN | OUT

fun direction_name :: "direction \<Rightarrow> js_string" where
  "direction_name IN = js ''IN''"
| "direction_name OUT = js ''OUT''"

text \<open>
  A history entry \<open>{direction, text}\<close>, read from a row of \<open>messages\<close> (a NULL text reads as
  \<open>null\<close>), and a row \<open>{category, title, content}\<close> of \<open>knowledge_base\<close>.
\<close>

type_synonym history_entry = "direction \<times> js_string option"

record knowledge_row =
  category :: js_string
  title :: js_string
  content :: js_string

text \<open>
  The fixed pieces of the template literal of \<open>buildOrchestratorUserPrompt\<close>, as UTF-16
  code units. In order: the heading of the latest message of the guest with the opening
  quote; the closing quote and the heading of the recent conversation with this number;
  the heading of the guest state; the heading of the related knowledge documents; the
  closing instruction to output exactly one valid JSON object with the six fields.
  \<open>NO_HISTORY\<close> and \<open>NO_KNOWLEDGE\<close> are the placeholders "(no previous conversation)" and
  "(no related knowledge)" used when the joined text is empty.
\<close>

definition prompt_latest :: js_string where
  "prompt_latest =
    [10, 91, 49552, 45784, 32, 52572, 49888, 32, 47928, 51088, 93, 10, 34]"

definition prompt_history :: js_string where
  "prompt_history =
    [34, 10, 10, 91, 51060, 32, 48264, 54840, 50752, 51032, 32, 52572, 44540, 32, 45824,
     54868, 32, 55176, 49828, 53664, 47532, 93, 10]"

definition NO_HISTORY :: js_string where
  "NO_HISTORY =
    [40, 51060, 51204, 32, 45824, 54868, 32, 50630, 51020, 41]"

definition prompt_guest :: js_string where
  "prompt_guest =
    [10, 10, 91, 54788, 51116, 32, 44172, 49828, 53944, 32, 49345, 53468, 32, 103, 117,
     101, 115, 116, 83, 116, 97, 116, 101, 93, 10]"

definition prompt_knowledge :: js_string where
  "prompt_knowledge =
    [10, 10, 91, 44288, 47144, 32, 51648, 49885, 32, 47928, 49436, 46308, 93, 10]"

definition NO_KNOWLEDGE :: js_string where
  "NO_KNOWLEDGE =
    [40, 44288, 47144, 32, 51648, 49885, 32, 50630, 51020, 41]"

definition prompt_task :: js_string where
  "prompt_task =
    [10, 10, 50948, 32, 51221, 48372, 47484, 32, 48148, 53461, 51004, 47196, 44, 10,
     114, 101, 112, 108, 121, 95, 116, 101, 120, 116, 44, 32, 105, 110, 116, 101, 110,
     116, 44, 32, 102, 108, 111, 119, 95, 116, 121, 112, 101, 44, 32, 115, 108, 111,
     116, 115, 44, 32, 110, 101, 101, 100, 95, 102, 111, 108, 108, 111, 119, 117, 112,
     44, 32, 101, 110, 100, 95, 102, 108, 111, 119, 32, 47484, 32, 47784, 46160, 32,
     54252, 54632, 54616, 45716, 10, 74, 83, 79, 78, 32, 44061, 52404, 32, 54616, 45208,
     47484, 32, 52636, 47141, 54644, 46, 10, 48152, 46300, 49884, 32, 50976, 54952,
     54620, 32, 74, 83, 79, 78, 32, 44061, 52404, 32, 54616, 45208, 47564, 32, 52636,
     47141, 54644, 50556, 32, 54620, 45796, 46, 10]"

text \<open>A template literal prints \<open>null\<close> as the string "null".\<close>

definition interpolate :: "js_string option \<Rightarrow> js_string" where
  "interpolate x = (case x of Some s \<Rightarrow> s | None \<Rightarrow> js ''null'')"

definition history_line :: "history_entry \<Rightarrow> js_string" where
  "history_line h = js ''['' @ direction_name (fst h) @ js ''] '' @ interpolate (snd h)"

definition knowledge_block :: "knowledge_row \<Rightarrow> js_string" where
  "knowledge_block k = js ''[#'' @ category k @ js ''] '' @ title k @ [10] @ content k"

definition buildOrchestratorUserPrompt ::
  "js_string \<Rightarrow> js_string \<Rightarrow> history_entry list \<Rightarrow> knowledge_row list \<Rightarrow> js_string" where
  "buildOrchestratorUserPrompt txt guestState history knowledge =
     (let historyText = join [10] (map history_line history);
          kbText = join [10, 10] (map knowledge_block knowledge)
      in prompt_latest @ txt @ prompt_history
         @ (if historyText \<noteq> [] then historyText else NO_HISTORY)
         @ prompt_guest
         @ (if guestState \<noteq> [] then guestState else js ''UNKNOWN'')
         @ prompt_knowledge
         @ (if kbText \<noteq> [] then kbText else NO_KNOWLEDGE)
         @ prompt_task)"

section \<open>server.js: runOrchestratorLLM\<close>

text \<open>
  The outcome of \<open>openai.chat.completions.create\<close> as the program reads it: the call
  rejects (or the response cannot be read without a throw), or
  \<open>resp.choices[0]?.message?.content\<close> is a string, or it is nullish.
\<close>

datatype completion = Rejected | Content "js_string option"

record orch_result =
  reply_text :: json
  intent :: json
  flow_type :: json
  slots :: json
  need_followup :: bool
  end_flow :: bool

text \<open>
  The fixed reply of the fallback (in Korean: thank you for the inquiry, the automatic
  answering system is being set up, we will get back to you shortly).
\<close>

definition FALLBACK_REPLY :: js_string where
  "FALLBACK_REPLY =
    [47928, 51032, 32, 44048, 49324, 54633, 45768, 45796, 33, 32, 54788, 51116, 32,
     51088, 46041, 51025, 45813, 32, 49884, 49828, 53596, 32, 49464, 54021, 32, 51473,
     51060, 46972, 44, 32, 51312, 44552, 32, 46244, 50640, 32, 45796, 49884, 32, 50504,
     45236, 46300, 47532, 44192, 49845, 45768, 45796, 32, 58, 41]"

definition ORCH_FALLBACK :: orch_result where
  "ORCH_FALLBACK =
     \<lparr>reply_text = JString FALLBACK_REPLY, intent = JString (js ''GENERIC''),
      flow_type = JNull, slots = JObject [], need_followup = True, end_flow = False\<rparr>"

text \<open>\<open>const raw = resp.choices[0]?.message?.content?.trim() || "{}"\<close>\<close>

definition raw_output :: "js_string option \<Rightarrow> js_string" where
  "raw_output c =
     (case c of None \<Rightarrow> js ''{}''
      | Some s \<Rightarrow> if trim s \<noteq> [] then trim s else js ''{}'')"

text \<open>
  The body of the \<open>try\<close> block. \<open>JSON_parse\<close> stands for the built-in \<open>JSON.parse\<close>, with
  \<open>None\<close> where it throws; the inner \<open>catch\<close> then sets \<open>parsed = null\<close>.
\<close>

definition orchestrator_try ::
  "(js_string \<Rightarrow> json option) \<Rightarrow> completion \<Rightarrow> exn + orch_result" where
  "orchestrator_try JSON_parse resp =
     (case resp of
        Rejected \<Rightarrow> Inl ApiError
      | Content c \<Rightarrow>
          (let parsed = (case JSON_parse (raw_output c) of None \<Rightarrow> JNull | Some v \<Rightarrow> v)
           in if \<not> truthy parsed \<or> \<not> typeof_object parsed then Inr ORCH_FALLBACK
              else Inr \<lparr>reply_text = or_else (get_prop parsed (js ''reply_text'')) (JString []),
                        intent = or_else (get_prop parsed (js ''intent'')) (JString (js ''GENERIC'')),
                        flow_type = or_else (get_prop parsed (js ''flow_type'')) JNull,
                        slots = or_else (get_prop parsed (js ''slots'')) (JObject []),
                        need_followup = to_boolean (get_prop parsed (js ''need_followup'')),
                        end_flow = to_boolean (get_prop parsed (js ''end_flow''))\<rparr>))"

text \<open>
  \<open>runOrchestratorLLM\<close>: the prompt is built outside the \<open>try\<close> (with string arguments
  the template literal cannot throw), the system prompt is a constant, so the completion
  \<open>llm\<close> is a function of the trimmed user prompt; the outer \<open>catch\<close> returns the fallback.
\<close>

definition runOrchestratorLLM ::
  "(js_string \<Rightarrow> completion) \<Rightarrow> (js_string \<Rightarrow> json option) \<Rightarrow>
   js_string \<Rightarrow> js_string \<Rightarrow> history_entry list \<Rightarrow> knowledge_row list \<Rightarrow> exn + orch_result" where
  "runOrchestratorLLM llm JSON_parse txt guestState history knowledge =
     (let userPrompt = buildOrchestratorUserPrompt txt guestState history knowledge
      in case orchestrator_try JSON_parse (llm (trim userPrompt)) of
           Inl err \<Rightarrow> Inr ORCH_FALLBACK
         | Inr r \<Rightarrow> Inr r)"

section \<open>The conversation store\<close>

text \<open>
  The columns of \<open>messages\<close> and \<open>followup_queue\<close> that the handlers write. A column holds
  the value bound to its statement parameter; \<open>None\<close> is SQL NULL or a column left to its
  default. \<open>msg_slots\<close> holds the value whose \<open>JSON.stringify\<close> text is stored.
\<close>

record message =
  msg_id :: nat
  msg_direction :: direction
  msg_phone_number :: js_string
  msg_text :: "js_string option"
  msg_created_at :: "int option"
  msg_intent :: "json option"
  msg_confidence :: "rat option"
  msg_guest_state :: "js_string option"
  msg_handled_by :: "js_string option"
  msg_need_followup :: "bool option"
  msg_resolved :: "bool option"
  msg_reply_to_id :: "nat option"
  msg_slots :: "json option"
  msg_flow_type :: "json option"

record followup =
  fu_message_id :: nat
  fu_status :: js_string
  fu_reason :: "js_string option"

record tables =
  messages :: "message list"
  followup_queue :: "followup list"

text \<open>
  One pooled connection to the database: \<open>durable\<close> is the committed content, \<open>pending\<close> the
  content as seen inside the transaction this connection has open, if any. Outside a
  transaction a statement commits by itself. \<open>outbox\<close> lists the calls of \<open>sendSms\<close>.
\<close>

record world =
  durable :: tables
  pending :: "tables option"
  outbox :: "(js_string \<times> js_string option) list"

definition view :: "world \<Rightarrow> tables" where
  "view w = (case pending w of Some t \<Rightarrow> t | None \<Rightarrow> durable w)"

definition db_write :: "(tables \<Rightarrow> tables) \<Rightarrow> world \<Rightarrow> world" where
  "db_write f w =
     (case pending w of
        Some t \<Rightarrow> w\<lparr>pending := Some (f t)\<rparr>
      | None \<Rightarrow> w\<lparr>durable := f (durable w)\<rparr>)"

definition tx_begin :: "world \<Rightarrow> world" where
  "tx_begin w = (case pending w of None \<Rightarrow> w\<lparr>pending := Some (durable w)\<rparr> | Some t \<Rightarrow> w)"

definition tx_commit :: "world \<Rightarrow> world" where
  "tx_commit w = (case pending w of Some t \<Rightarrow> w\<lparr>durable := t, pending := None\<rparr> | None \<Rightarrow> w)"

definition tx_rollback :: "world \<Rightarrow> world" where
  "tx_rollback w = w\<lparr>pending := None\<rparr>"

text \<open>
  \<open>RETURNING id\<close>: the database assigns the identifier. The schema is not part of the
  sources; the model takes the first number above every identifier in the table.
\<close>

definition next_id :: "message list \<Rightarrow> nat" where
  "next_id ms = Suc (fold max (map msg_id ms) 0)"

definition insert_message :: "message \<Rightarrow> tables \<Rightarrow> tables" where
  "insert_message m t = t\<lparr>messages := messages t @ [m]\<rparr>"

definition insert_followup :: "followup \<Rightarrow> tables \<Rightarrow> tables" where
  "insert_followup f t = t\<lparr>followup_queue := followup_queue t @ [f]\<rparr>"

text \<open>\<open>INSERT INTO messages (direction, phone_number, text, created_at) VALUES ('IN', $1, $2, $3)\<close>\<close>

definition in_row :: "nat \<Rightarrow> js_string \<Rightarrow> js_string \<Rightarrow> int \<Rightarrow> message" where
  "in_row i frm txt receivedAt =
     \<lparr>msg_id = i, msg_direction = IN, msg_phone_number = frm, msg_text = Some txt,
      msg_created_at = Some receivedAt, msg_intent = None, msg_confidence = None,
      msg_guest_state = None, msg_handled_by = None, msg_need_followup = None,
      msg_resolved = None, msg_reply_to_id = None, msg_slots = None, msg_flow_type = None\<rparr>"

text \<open>\<open>SELECT direction, text FROM messages WHERE phone_number = $1 ORDER BY id DESC LIMIT 10\<close>\<close>

definition select_history :: "js_string \<Rightarrow> tables \<Rightarrow> message list" where
  "select_history frm t =
     take 10 (rev (sort_key msg_id (filter (\<lambda>m. msg_phone_number m = frm) (messages t))))"

section \<open>server.js: the webhook handler\<close>

text \<open>
  The request body after \<open>express.json()\<close>, with the fields the handler reads. The sender and
  the text are strings when present; \<open>receivedAt\<close>, when present, is a number of
  milliseconds since the epoch, which \<open>new Date\<close> turns into that date. A date written
  as text, as in the example of the source, is not modelled.
\<close>

record body =
  body_from :: "js_string option"
  body_phone :: "js_string option"
  body_sender :: "js_string option"
  body_text :: "js_string option"
  body_message :: "js_string option"
  body_receivedAt :: "int option"

text \<open>\<open>a || b\<close> on strings that may be \<open>undefined\<close>.\<close>

definition str_or :: "js_string option \<Rightarrow> js_string option \<Rightarrow> js_string option" where
  "str_or a b = (case a of Some s \<Rightarrow> if s \<noteq> [] then a else b | None \<Rightarrow> b)"

record payload =
  p_from :: "js_string option"
  p_text :: "js_string option"
  p_receivedAt :: int

text \<open>
  \<open>body.receivedAt ? new Date(body.receivedAt) : new Date()\<close>: the test is one of
  truthiness, so the number 0 gives the clock as an absent field does.
\<close>

definition parseSmsProviderPayload :: "int \<Rightarrow> body \<Rightarrow> payload" where
  "parseSmsProviderPayload now b =
     \<lparr>p_from = str_or (str_or (body_from b) (body_phone b)) (body_sender b),
      p_text = str_or (str_or (body_text b) (body_message b)) (Some []),
      p_receivedAt = (case body_receivedAt b of
                        Some t \<Rightarrow> if t \<noteq> 0 then t else now
                      | None \<Rightarrow> now)\<rparr>"

text \<open>\<open>getGuestState\<close> is a stub.\<close>

definition getGuestState :: "js_string \<Rightarrow> js_string" where
  "getGuestState phoneNumber = js ''UNKNOWN''"

text \<open>
  The surroundings of one request: which database calls reject (\<open>fails\<close>, and
  \<open>connect_fails\<close> for \<open>pool.connect()\<close>), the clock, the rows the knowledge query returns,
  the language model and \<open>JSON.parse\<close>.
\<close>

datatype stmt =
    BEGIN | INSERT_IN | SELECT_HISTORY | SELECT_KNOWLEDGE | INSERT_OUT
  | INSERT_FOLLOWUP | UPDATE_IN | COMMIT | ROLLBACK

record env =
  connect_fails :: bool
  fails :: "stmt \<Rightarrow> bool"
  now :: int
  knowledge_rows :: "knowledge_row list"
  llm :: "js_string \<Rightarrow> completion"
  JSON_parse :: "js_string \<Rightarrow> json option"

record ok_body =
  incoming_id :: nat
  outgoing_id :: "nat option"
  ok_intent :: json
  ok_flow_type :: json
  ok_end_flow :: bool

text \<open>The 200 body of the handler of \<open>src/unnamed/part_000\<close>.\<close>

record ok_body_p0 =
  incoming_id_p0 :: nat
  outgoing_id_p0 :: nat
  ok_intent_p0 :: json
  ok_guest_state :: js_string
  ok_night :: bool
  ok_need_followup :: bool

datatype response =
    NoResponse
  | Json_error nat js_string
  | Json_ok ok_body
  | Json_ok_p0 ok_body_p0

text \<open>Steps 1 to 3: \<open>BEGIN\<close>, the IN row, the guest state, the history, the knowledge.\<close>

definition record_inbound ::
  "env \<Rightarrow> js_string \<Rightarrow> js_string \<Rightarrow> int \<Rightarrow> world \<Rightarrow>
   (exn + nat \<times> history_entry list \<times> knowledge_row list) \<times> world" where
  "record_inbound e frm txt receivedAt w =
     (if fails e BEGIN then (Inl DbError, w)
      else let w1 = tx_begin w in
      if fails e INSERT_IN then (Inl DbError, w1)
      else let incomingId = next_id (messages (view w1));
               w2 = db_write (insert_message (in_row incomingId frm txt receivedAt)) w1 in
      if fails e SELECT_HISTORY then (Inl DbError, w2)
      else let history = map (\<lambda>r. (msg_direction r, msg_text r))
                             (rev (select_history frm (view w2))) in
      if fails e SELECT_KNOWLEDGE then (Inl DbError, w2)
      else (Inr (incomingId, history, knowledge_rows e), w2))"

text \<open>\<open>x || null\<close> on a value, and \<open>Object.keys(x).length\<close>.\<close>

definition or_null :: "json \<Rightarrow> json option" where
  "or_null v = (if truthy v then Some v else None)"

fun keys_length :: "json \<Rightarrow> nat" where
  "keys_length (JObject kvs) = length kvs"
| "keys_length (JArray xs) = length xs"
| "keys_length (JString s) = length s"
| "keys_length v = 0"

definition out_row :: "nat \<Rightarrow> js_string \<Rightarrow> js_string \<Rightarrow> js_string \<Rightarrow> nat \<Rightarrow> orch_result \<Rightarrow> message" where
  "out_row i frm reply guestState incomingId r =
     \<lparr>msg_id = i, msg_direction = OUT, msg_phone_number = frm, msg_text = Some reply,
      msg_created_at = None, msg_intent = or_null (intent r), msg_confidence = None,
      msg_guest_state = (if guestState \<noteq> [] then Some guestState else None),
      msg_handled_by = Some (js ''LLM_ORCHESTRATOR''),
      msg_need_followup = Some (need_followup r), msg_resolved = Some (\<not> need_followup r),
      msg_reply_to_id = Some incomingId,
      msg_slots = (if 0 < keys_length (if truthy (slots r) then slots r else JObject [])
                   then Some (slots r) else None),
      msg_flow_type = or_null (flow_type r)\<rparr>"

text \<open>
  Step 5: \<open>if (reply_text && reply_text.trim() !== "")\<close>, then \<open>sendSms\<close> and the OUT row.
  A truthy \<open>reply_text\<close> that is not a string has no \<open>trim\<close> method: the call throws.
\<close>

definition send_reply ::
  "env \<Rightarrow> js_string \<Rightarrow> js_string \<Rightarrow> nat \<Rightarrow> orch_result \<Rightarrow> world \<Rightarrow> (exn + nat option) \<times> world" where
  "send_reply e frm guestState incomingId r w =
     (if \<not> truthy (reply_text r) then (Inr None, w)
      else case reply_text r of
        JString s \<Rightarrow>
          if trim s = [] then (Inr None, w)
          else let w1 = w\<lparr>outbox := outbox w @ [(frm, Some s)]\<rparr> in
          if fails e INSERT_OUT then (Inl DbError, w1)
          else let outgoingId = next_id (messages (view w1))
               in (Inr (Some outgoingId),
                   db_write (insert_message (out_row outgoingId frm s guestState incomingId r)) w1)
      | v \<Rightarrow> (Inl TypeError, w))"

text \<open>Step 6: \<open>INSERT INTO followup_queue (message_id, status, reason) VALUES ($1, 'PENDING', $2)\<close>\<close>

definition enqueue_followup :: "env \<Rightarrow> nat \<Rightarrow> orch_result \<Rightarrow> world \<Rightarrow> (exn + unit) \<times> world" where
  "enqueue_followup e incomingId r w =
     (if need_followup r then
        if fails e INSERT_FOLLOWUP then (Inl DbError, w)
        else (Inr (), db_write (insert_followup \<lparr>fu_message_id = incomingId,
                fu_status = js ''PENDING'', fu_reason = Some (js ''LLM_FLAGGED'')\<rparr>) w)
      else (Inr (), w))"

text \<open>
  Step 7: \<open>UPDATE messages SET intent = $1, guest_state = $2, need_followup = $3,
  resolved = $4 WHERE id = $5\<close>
\<close>

definition update_in :: "nat \<Rightarrow> js_string \<Rightarrow> orch_result \<Rightarrow> tables \<Rightarrow> tables" where
  "update_in incomingId guestState r t =
     t\<lparr>messages := map (\<lambda>m. if msg_id m = incomingId
          then m\<lparr>msg_intent := or_null (intent r),
                 msg_guest_state := (if guestState \<noteq> [] then Some guestState else None),
                 msg_need_followup := Some (need_followup r),
                 msg_resolved := Some (\<not> need_followup r)\<rparr>
          else m) (messages t)\<rparr>"

text \<open>Steps 5 to 7, \<open>COMMIT\<close> and the answer.\<close>

definition persist_outcome ::
  "env \<Rightarrow> js_string \<Rightarrow> js_string \<Rightarrow> nat \<Rightarrow> orch_result \<Rightarrow> world \<Rightarrow> (exn + response) \<times> world" where
  "persist_outcome e frm guestState incomingId r w =
     (case send_reply e frm guestState incomingId r w of
        (Inl err, w1) \<Rightarrow> (Inl err, w1)
      | (Inr outgoingId, w1) \<Rightarrow>
     (case enqueue_followup e incomingId r w1 of
        (Inl err, w2) \<Rightarrow> (Inl err, w2)
      | (Inr u, w2) \<Rightarrow>
     (if fails e UPDATE_IN then (Inl DbError, w2)
      else let w3 = db_write (update_in incomingId guestState r) w2 in
      if fails e COMMIT then (Inl DbError, w3)
      else (Inr (Json_ok \<lparr>incoming_id = incomingId, outgoing_id = outgoingId,
                    ok_intent = intent r, ok_flow_type = flow_type r,
                    ok_end_flow = end_flow r\<rparr>), tx_commit w3))))"

text \<open>The \<open>try\<close> block of the handler.\<close>

definition webhook_try :: "env \<Rightarrow> body \<Rightarrow> world \<Rightarrow> (exn + response) \<times> world" where
  "webhook_try e b w =
     (let p = parseSmsProviderPayload (now e) b in
      case (p_from p, p_text p) of
        (Some frm, Some txt) \<Rightarrow>
          if frm = [] \<or> txt = [] then (Inr (Json_error 400 (js ''from, text is required'')), w)
          else (case record_inbound e frm txt (p_receivedAt p) w of
                  (Inl err, w1) \<Rightarrow> (Inl err, w1)
                | (Inr (incomingId, history, knowledge), w1) \<Rightarrow>
                    (case runOrchestratorLLM (llm e) (JSON_parse e) txt (getGuestState frm)
                            history knowledge of
                       Inl err \<Rightarrow> (Inl err, w1)
                     | Inr r \<Rightarrow> persist_outcome e frm (getGuestState frm) incomingId r w1))
      | _ \<Rightarrow> (Inr (Json_error 400 (js ''from, text is required'')), w))"

text \<open>
  \<open>app.post("/sms/webhook", ...)\<close>: \<open>pool.connect()\<close> is awaited before the \<open>try\<close>, so its
  rejection leaves the request unanswered, and so does a rejected \<open>ROLLBACK\<close> in the
  \<open>catch\<close>, which comes before the 500 answer.
\<close>

definition sms_webhook :: "env \<Rightarrow> body \<Rightarrow> world \<Rightarrow> response \<times> world" where
  "sms_webhook e b w =
     (if connect_fails e then (NoResponse, w)
      else case webhook_try e b w of
        (Inr resp, w1) \<Rightarrow> (resp, w1)
      | (Inl err, w1) \<Rightarrow>
          if fails e ROLLBACK then (NoResponse, w1)
          else (Json_error 500 (js ''internal_server_error''), tx_rollback w1))"

text \<open>The request passes the check \<open>if (!from || !text)\<close>.\<close>

definition validated :: "payload \<Rightarrow> bool" where
  "validated p =
     (case (p_from p, p_text p) of
        (Some frm, Some txt) \<Rightarrow> frm \<noteq> [] \<and> txt \<noteq> []
      | _ \<Rightarrow> False)"

text \<open>The IN row once the \<open>UPDATE\<close> of step 7 has set its four columns.\<close>

definition handled_in_row :: "nat \<Rightarrow> js_string \<Rightarrow> js_string \<Rightarrow> int \<Rightarrow> orch_result \<Rightarrow> message" where
  "handled_in_row i frm txt t r =
     (in_row i frm txt t)\<lparr>msg_intent := or_null (intent r),
        msg_guest_state := Some (js ''UNKNOWN''),
        msg_need_followup := Some (need_followup r),
        msg_resolved := Some (\<not> need_followup r)\<rparr>"

section \<open>The config cache\<close>

text \<open>
  Rows of \<open>intents\<close>, \<open>bot_settings\<close> and \<open>intent_templates\<close> as \<open>loadConfig\<close> selects them,
  and the entries \<open>{sub_intent, label, message}\<close> it builds.
\<close>

record intent_row =
  intent_name :: js_string
  intent_description :: js_string
  is_action :: bool
  is_complaint_like :: bool

type_synonym setting_row = "js_string \<times> js_string option"

record template_row =
  tr_intent_name :: js_string
  tr_sub_intent :: "js_string option"
  tr_display_label :: "js_string option"
  tr_message :: "js_string option"

record template_entry =
  sub_intent :: "js_string option"
  label :: "js_string option"
  message_text :: "js_string option"

text \<open>
  The object held by \<open>cachedConfig\<close>: the fields both versions have, then those of
  \<open>server.js\<close> and those of \<open>src/unnamed/part_000\<close>.
\<close>

record config_base =
  intents :: "intent_row list"
  actionIntentNames :: "js_string list"
  lastLoadedAt :: "int option"

record cached_config = config_base +
  templates :: "(js_string \<times> template_entry list) list"

record cached_config_p0 = config_base +
  nightDeferReply :: "js_string option"
  complaintReply :: "js_string option"

text \<open>
  \<open>cachedConfig\<close> is a module variable that refers to an object. The heap maps the address
  of each object built so far to its content; a request that has read the variable
  keeps the address it read.
\<close>

record 'c heap =
  objects :: "nat \<Rightarrow> 'c"
  allocated :: nat
  cachedConfig :: nat

definition current :: "'c heap \<Rightarrow> 'c" where
  "current h = objects h (cachedConfig h)"

text \<open>\<open>cachedConfig = { ... }\<close>: a new object is built and the variable is set to it.\<close>

definition assign_new :: "'c \<Rightarrow> 'c heap \<Rightarrow> 'c heap" where
  "assign_new c h =
     h\<lparr>objects := (objects h)(allocated h := c), allocated := Suc (allocated h),
       cachedConfig := allocated h\<rparr>"

text \<open>The value \<open>cachedConfig\<close> has when the module is loaded, in each version.\<close>

definition initial_config :: cached_config where
  "initial_config = \<lparr>intents = [], actionIntentNames = [], lastLoadedAt = None, templates = []\<rparr>"

definition initial_config_p0 :: cached_config_p0 where
  "initial_config_p0 =
     \<lparr>intents = [], actionIntentNames = [], lastLoadedAt = None,
      nightDeferReply = None, complaintReply = None\<rparr>"

definition initial_heap :: "'c \<Rightarrow> 'c heap" where
  "initial_heap c = \<lparr>objects = (\<lambda>a. c), allocated = 1, cachedConfig = 0\<rparr>"

text \<open>
  What the database answers to \<open>loadConfig\<close>: whether \<open>pool.connect()\<close> rejects, and the
  rows of each query, \<open>None\<close> when the query rejects. The argument \<open>clock\<close> of
  \<open>loadConfig\<close> is the value of \<open>new Date()\<close>.
\<close>

record config_reads =
  pool_connect_fails :: bool
  intentsRes :: "intent_row list option"
  settingsRes :: "setting_row list option"
  tmplRes :: "template_row list option"

text \<open>\<open>for (const row of settingsRes.rows) settings[row.key] = row.value\<close>\<close>

definition build_settings :: "setting_row list \<Rightarrow> (js_string \<rightharpoonup> js_string option)" where
  "build_settings rows = fold (\<lambda>row settings. settings(fst row \<mapsto> snd row)) rows Map.empty"

text \<open>\<open>settings[k] || d\<close>\<close>

definition setting_or :: "(js_string \<rightharpoonup> js_string option) \<Rightarrow> js_string \<Rightarrow> js_string \<Rightarrow> js_string" where
  "setting_or settings k d =
     (case settings k of Some (Some s) \<Rightarrow> if s \<noteq> [] then s else d | _ \<Rightarrow> d)"

text \<open>
  \<open>templatesByIntent\<close> is a plain object, listed here by its own properties. Reading
  \<open>templatesByIntent[name]\<close> for a name it does not own finds what \<open>Object.prototype\<close> has
  under that name: a function, or the prototype itself for \<open>__proto__\<close>.
\<close>

definition Object_prototype_keys :: "js_string list" where
  "Object_prototype_keys =
     [js ''constructor'', js ''__defineGetter__'', js ''__defineSetter__'',
      js ''hasOwnProperty'', js ''__lookupGetter__'', js ''__lookupSetter__'',
      js ''isPrototypeOf'', js ''propertyIsEnumerable'', js ''toString'', js ''valueOf'',
      js ''__proto__'', js ''toLocaleString'']"

text \<open>
  One turn of the loop that groups the template rows by \<open>intent_name\<close>:
  \<open>if (!templatesByIntent[name]) templatesByIntent[name] = []\<close>, then
  \<open>templatesByIntent[name].push({...})\<close>. An own property holds an array, which is truthy
  and takes the entry. An inherited value is truthy too, so no array is set, and it has no
  \<open>push\<close>: the call throws a TypeError.
\<close>

fun push_template :: "template_row \<Rightarrow> (js_string \<times> template_entry list) list \<Rightarrow>
    exn + (js_string \<times> template_entry list) list" where
  "push_template row [] =
     (if tr_intent_name row \<in> set Object_prototype_keys then Inl TypeError
      else Inr [(tr_intent_name row, [\<lparr>sub_intent = tr_sub_intent row,
                   label = tr_display_label row, message_text = tr_message row\<rparr>])])"
| "push_template row ((k, vs) # rest) =
     (if k = tr_intent_name row
      then Inr ((k, vs @ [\<lparr>sub_intent = tr_sub_intent row, label = tr_display_label row,
                            message_text = tr_message row\<rparr>]) # rest)
      else case push_template row rest of
             Inl err \<Rightarrow> Inl err
           | Inr rest' \<Rightarrow> Inr ((k, vs) # rest'))"

text \<open>The loop \<open>for (const row of tmplRes.rows)\<close>, which stops at the first throw.\<close>

fun group_templates :: "template_row list \<Rightarrow> (js_string \<times> template_entry list) list \<Rightarrow>
    exn + (js_string \<times> template_entry list) list" where
  "group_templates [] templatesByIntent = Inr templatesByIntent"
| "group_templates (row # rows) templatesByIntent =
     (case push_template row templatesByIntent of
        Inl err \<Rightarrow> Inl err
      | Inr templatesByIntent' \<Rightarrow> group_templates rows templatesByIntent')"

text \<open>
  \<open>loadConfig\<close> of \<open>server.js\<close>. Every throw comes before the assignment to
  \<open>cachedConfig\<close>; the \<open>finally\<close> block releases the client and lets it pass.
\<close>

definition loadConfig :: "config_reads \<Rightarrow> int \<Rightarrow> cached_config heap \<Rightarrow> (exn + unit) \<times> cached_config heap" where
  "loadConfig rd clock h =
     (if pool_connect_fails rd then (Inl DbError, h)
      else case intentsRes rd of
        None \<Rightarrow> (Inl DbError, h)
      | Some intents' \<Rightarrow>
      (let actionIntentNames' = map intent_name (filter is_action intents') in
       case settingsRes rd of
         None \<Rightarrow> (Inl DbError, h)
       | Some rows \<Rightarrow>
       (let settings = build_settings rows in
        case tmplRes rd of
          None \<Rightarrow> (Inl DbError, h)
        | Some trows \<Rightarrow>
        (case group_templates trows [] of
           Inl err \<Rightarrow> (Inl err, h)
         | Inr templatesByIntent \<Rightarrow>
             (Inr (), assign_new \<lparr>intents = intents', actionIntentNames = actionIntentNames',
                        lastLoadedAt = Some clock, templates = templatesByIntent\<rparr> h)))))"

text \<open>
  The replies \<open>loadConfig\<close> of \<^verbatim>\<open>src/unnamed/part_000\<close> falls back on when \<open>bot_settings\<close> has no
  \<open>night_defer_reply\<close> or \<open>complaint_reply\<close> (in Korean: at night requests are only
  registered and answered after 10 a.m.; an apology saying that the message was passed
  on to the person in charge).
\<close>

definition DEFAULT_NIGHT_DEFER_REPLY :: js_string where
  "DEFAULT_NIGHT_DEFER_REPLY =
    [51648, 44552, 51008, 32, 50556, 44036, 32, 51088, 46041, 51025, 45813, 32, 49884,
     44036, 51060, 46972, 32, 51217, 49688, 47564, 32, 44032, 45733, 54633, 45768,
     45796, 46, 10, 49345, 49464, 32, 54869, 51064, 32, 54980, 32, 50724, 51204, 32, 49,
     48, 49884, 32, 51060, 54980, 50640, 32, 45796, 49884, 32, 50504, 45236, 46300,
     47540, 44172, 50836, 32, 58, 41]"

definition DEFAULT_COMPLAINT_REPLY :: js_string where
  "DEFAULT_COMPLAINT_REPLY =
    [48520, 54200, 51012, 32, 46300, 47140, 32, 51221, 47568, 32, 51396, 49569, 54633,
     45768, 45796, 46, 10, 45236, 50857, 51012, 32, 45812, 45817, 51088, 50640, 44172,
     32, 48148, 47196, 32, 51204, 45804, 54664, 44256, 44, 32, 44032, 45733, 54620, 32,
     48736, 47476, 44172, 32, 51649, 51217, 32, 50672, 46973, 46300, 47532, 44192,
     49845, 45768, 45796, 46]"

text \<open>\<open>loadConfig\<close> of \<open>src/unnamed/part_000\<close>.\<close>

definition loadConfig_p0 ::
  "config_reads \<Rightarrow> int \<Rightarrow> cached_config_p0 heap \<Rightarrow> (exn + unit) \<times> cached_config_p0 heap" where
  "loadConfig_p0 rd clock h =
     (if pool_connect_fails rd then (Inl DbError, h)
      else case intentsRes rd of
        None \<Rightarrow> (Inl DbError, h)
      | Some intents' \<Rightarrow>
      (let actionIntentNames' = map intent_name (filter is_action intents') in
       case settingsRes rd of
         None \<Rightarrow> (Inl DbError, h)
       | Some rows \<Rightarrow>
       (let settings = build_settings rows in
        (Inr (), assign_new \<lparr>intents = intents', actionIntentNames = actionIntentNames',
                   lastLoadedAt = Some clock,
                   nightDeferReply =
                     Some (setting_or settings (js ''night_defer_reply'') DEFAULT_NIGHT_DEFER_REPLY),
                   complaintReply =
                     Some (setting_or settings (js ''complaint_reply'') DEFAULT_COMPLAINT_REPLY)\<rparr> h))))"

section \<open>isNightTime and isComplaint (both versions of the server)\<close>

text \<open>
  \<open>new Date(date.toLocaleString("en-US", {timeZone: "Asia/Seoul"})).getHours()\<close>: the date
  is printed as the wall-clock time of Asia/Seoul with the time-zone data of the runtime,
  the text is read back as a local time of the zone of the server, and \<open>getHours\<close> gives
  the hour of the result in that zone. The zone data and the zone of the server are not
  in the sources, so the whole composition is the parameter \<open>hours\<close>; it is \<open>None\<close> where the
  text read back is not a date: \<open>getHours\<close> then gives \<open>NaN\<close> and both comparisons are
  false. A date is a number of milliseconds since the epoch.
\<close>

definition isNightTime :: "(int \<Rightarrow> int option) \<Rightarrow> int \<Rightarrow> bool" where
  "isNightTime hours date =
     (case hours date of None \<Rightarrow> False | Some hour \<Rightarrow> hour \<ge> 3 \<and> hour < 10)"

record intent_result =
  ir_intent :: json
  ir_confidence :: rat
  ir_is_complaint :: bool

definition isComplaint :: "intent_result \<Rightarrow> bool" where
  "isComplaint intentResult = (ir_is_complaint intentResult = True)"

section \<open>\<^verbatim>\<open>src/unnamed/part_000\<close>: classifier, policy and handler\<close>

text \<open>
  An earlier text of \<open>server.js\<close>. It classifies the message first and then chooses
  between the complaint reply, the night deferral and a generated reply, and it runs
  every statement outside a transaction. The file is an ES module (it uses \<open>import\<close> and a
  top-level \<open>await\<close>) that declares \<open>buildNightDeferReply\<close> and \<open>buildComplaintAutoReply\<close>
  twice at top level, which a module loader refuses with a SyntaxError: as it stands the
  file serves no request. The definitions of this section describe what its functions do
  once the earlier declaration of each pair is taken out; the server that runs is
  \<open>server.js\<close>, and nothing below is used to describe it. The surroundings add to those
  of \<open>server.js\<close>: what the database answers if \<open>classifyIntent\<close> has to load the config,
  the classifier model as a function of the values put into its prompts (the intents, the
  text, the guest state), the rows \<open>retrieveKnowledge\<close> gets for a category, and the hours
  \<open>isNightTime\<close> reads.
\<close>

record env_p0 = env +
  reads :: config_reads
  classifier :: "intent_row list \<Rightarrow> js_string \<Rightarrow> js_string \<Rightarrow> completion"
  knowledge_for :: "json \<Rightarrow> knowledge_row list"
  seoul_hours :: "int \<Rightarrow> int option"

text \<open>
  The \<open>try\<close> block of \<open>classifyIntent\<close>: \<open>raw = content?.trim() || ""\<close>; a parse error
  returns the 0.3 default; reading \<open>parsed.intent\<close> of \<open>null\<close> throws.
\<close>

definition classify_try :: "(js_string \<Rightarrow> json option) \<Rightarrow> completion \<Rightarrow> exn + intent_result" where
  "classify_try parse resp =
     (case resp of
        Rejected \<Rightarrow> Inl ApiError
      | Content c \<Rightarrow>
          (let raw = (case c of None \<Rightarrow> [] | Some s \<Rightarrow> trim s) in
           case parse raw of
             None \<Rightarrow> Inr \<lparr>ir_intent = JString (js ''GENERIC''), ir_confidence = 3 / 10,
                            ir_is_complaint = False\<rparr>
           | Some parsed \<Rightarrow>
               if parsed = JNull then Inl TypeError
               else Inr \<lparr>ir_intent = or_else (get_prop parsed (js ''intent'')) (JString (js ''GENERIC'')),
                         ir_confidence = (case get_prop parsed (js ''confidence'') of
                                            Some (JNumber n) \<Rightarrow> n | _ \<Rightarrow> 1 / 2),
                         ir_is_complaint = to_boolean (get_prop parsed (js ''is_complaint''))\<rparr>))"

definition classifyIntent ::
  "env_p0 \<Rightarrow> js_string \<Rightarrow> js_string \<Rightarrow> cached_config_p0 heap \<Rightarrow>
   (exn + intent_result) \<times> cached_config_p0 heap" where
  "classifyIntent e txt guestState h =
     (case (if lastLoadedAt (current h) = None then loadConfig_p0 (reads e) (now e) h
            else (Inr (), h)) of
        (Inl err, h1) \<Rightarrow> (Inl err, h1)
      | (Inr u, h1) \<Rightarrow>
          (case classify_try (JSON_parse e) (classifier e (intents (current h1)) txt guestState) of
             Inl err \<Rightarrow> (Inr \<lparr>ir_intent = JString (js ''GENERIC''), ir_confidence = 2 / 10,
                                ir_is_complaint = False\<rparr>, h1)
           | Inr r \<Rightarrow> (Inr r, h1)))"

text \<open>
  The later declarations of \<open>buildNightDeferReply\<close> and \<open>buildComplaintAutoReply\<close> (lines 301
  and 305), which read the config cache; the earlier ones (lines 194 and 202) return
  fixed texts.
\<close>

definition buildNightDeferReply :: "cached_config_p0 \<Rightarrow> js_string option" where
  "buildNightDeferReply cfg = nightDeferReply cfg"

definition buildComplaintAutoReply :: "cached_config_p0 \<Rightarrow> js_string option" where
  "buildComplaintAutoReply cfg = complaintReply cfg"

text \<open>\<open>retrieveKnowledge\<close> takes a connection of its own and runs one query.\<close>

definition retrieveKnowledge :: "env_p0 \<Rightarrow> intent_result \<Rightarrow> exn + knowledge_row list" where
  "retrieveKnowledge e intentResult =
     (if fails e SELECT_KNOWLEDGE then Inl DbError
      else Inr (knowledge_for e (ir_intent intentResult)))"

text \<open>
  \<open>generateReplyWithLLM\<close>: the argument list of \<open>create\<close> reads \<open>systemPrompt\<close>, which is a
  constant local to \<open>classifyIntent\<close> and not in scope here. Evaluating it throws a
  ReferenceError inside the \<open>try\<close>, no request is sent, and the \<open>catch\<close> returns the fixed
  message.
\<close>

definition generateReplyWithLLM ::
  "js_string \<Rightarrow> js_string \<Rightarrow> json \<Rightarrow> knowledge_row list \<Rightarrow> js_string" where
  "generateReplyWithLLM txt guestState intentName knowledge =
     (case (Inl ReferenceError :: exn + js_string) of
        Inl err \<Rightarrow> FALLBACK_REPLY
      | Inr reply \<Rightarrow> reply)"

text \<open>
  Step 4 of the handler: the reply text, \<open>needFollowup\<close> and \<open>followupReason\<close>.
  \<open>actionIntents.includes(x)\<close> holds when \<open>x\<close> is a string equal to one of the names.
\<close>

definition decide_reply ::
  "env_p0 \<Rightarrow> cached_config_p0 \<Rightarrow> js_string \<Rightarrow> js_string \<Rightarrow> int \<Rightarrow> intent_result \<Rightarrow>
   exn + js_string option \<times> bool \<times> js_string option" where
  "decide_reply e cfg txt guestState receivedAt intentResult =
     (let night = isNightTime (seoul_hours e) receivedAt;
          actionIntents = actionIntentNames cfg;
          shouldDefer = (night \<and> ir_intent intentResult \<in> set (map JString actionIntents))
      in if isComplaint intentResult
         then Inr (buildComplaintAutoReply cfg, True, Some (js ''COMPLAINT''))
         else if shouldDefer
         then Inr (buildNightDeferReply cfg, True, Some (js ''NIGHT_ACTION''))
         else case retrieveKnowledge e intentResult of
                Inl err \<Rightarrow> Inl err
              | Inr knowledgeSnippets \<Rightarrow>
                  Inr (Some (generateReplyWithLLM txt guestState (ir_intent intentResult)
                               knowledgeSnippets), False, None))"

definition out_row_p0 ::
  "nat \<Rightarrow> js_string \<Rightarrow> js_string option \<Rightarrow> js_string \<Rightarrow> nat \<Rightarrow> intent_result \<Rightarrow> bool \<Rightarrow> message" where
  "out_row_p0 i frm replyText guestState incomingId intentResult needFollowup =
     \<lparr>msg_id = i, msg_direction = OUT, msg_phone_number = frm, msg_text = replyText,
      msg_created_at = None, msg_intent = Some (ir_intent intentResult),
      msg_confidence = Some (ir_confidence intentResult),
      msg_guest_state = Some guestState,
      msg_handled_by = Some (if needFollowup then js ''AUTO_PENDING'' else js ''AUTO''),
      msg_need_followup = Some needFollowup, msg_resolved = Some (\<not> needFollowup),
      msg_reply_to_id = Some incomingId, msg_slots = None, msg_flow_type = None\<rparr>"

text \<open>
  \<open>UPDATE messages SET intent = $1, confidence = $2, guest_state = $3, need_followup = $4,
  resolved = $5 WHERE id = $6\<close>
\<close>

definition update_in_p0 :: "nat \<Rightarrow> js_string \<Rightarrow> intent_result \<Rightarrow> bool \<Rightarrow> tables \<Rightarrow> tables" where
  "update_in_p0 incomingId guestState intentResult needFollowup t =
     t\<lparr>messages := map (\<lambda>m. if msg_id m = incomingId
          then m\<lparr>msg_intent := Some (ir_intent intentResult),
                 msg_confidence := Some (ir_confidence intentResult),
                 msg_guest_state := Some guestState,
                 msg_need_followup := Some needFollowup,
                 msg_resolved := Some (\<not> needFollowup)\<rparr>
          else m) (messages t)\<rparr>"

text \<open>Steps 5 to 8: \<open>sendSms\<close>, the OUT row, the follow-up entry, the \<open>UPDATE\<close>, the answer.\<close>

definition persist_p0 ::
  "env_p0 \<Rightarrow> js_string \<Rightarrow> js_string \<Rightarrow> nat \<Rightarrow> bool \<Rightarrow> intent_result \<Rightarrow>
   js_string option \<Rightarrow> bool \<Rightarrow> js_string option \<Rightarrow> world \<Rightarrow> (exn + response) \<times> world" where
  "persist_p0 e frm guestState incomingId night intentResult replyText needFollowup followupReason w =
     (let w1 = w\<lparr>outbox := outbox w @ [(frm, replyText)]\<rparr> in
      if fails e INSERT_OUT then (Inl DbError, w1)
      else let outgoingId = next_id (messages (view w1));
               w2 = db_write (insert_message (out_row_p0 outgoingId frm replyText guestState
                                 incomingId intentResult needFollowup)) w1 in
      if needFollowup \<and> fails e INSERT_FOLLOWUP then (Inl DbError, w2)
      else let w3 = (if needFollowup
                     then db_write (insert_followup \<lparr>fu_message_id = incomingId,
                            fu_status = js ''PENDING'', fu_reason = followupReason\<rparr>) w2
                     else w2) in
      if fails e UPDATE_IN then (Inl DbError, w3)
      else (Inr (Json_ok_p0 \<lparr>incoming_id_p0 = incomingId, outgoing_id_p0 = outgoingId,
                    ok_intent_p0 = ir_intent intentResult, ok_guest_state = guestState,
                    ok_night = night, ok_need_followup = needFollowup\<rparr>),
            db_write (update_in_p0 incomingId guestState intentResult needFollowup) w3))"

text \<open>The \<open>try\<close> block of the handler; the state is the store and the heap of config objects.\<close>

definition webhook_try_p0 ::
  "env_p0 \<Rightarrow> body \<Rightarrow> world \<times> cached_config_p0 heap \<Rightarrow>
   (exn + response) \<times> world \<times> cached_config_p0 heap" where
  "webhook_try_p0 e b s =
     (let p = parseSmsProviderPayload (now e) b in
      case (p_from p, p_text p) of
        (Some frm, Some txt) \<Rightarrow>
          if frm = [] \<or> txt = [] then (Inr (Json_error 400 (js ''from, text is required'')), s)
          else if fails e INSERT_IN then (Inl DbError, s)
          else let incomingId = next_id (messages (view (fst s)));
                   w1 = db_write (insert_message (in_row incomingId frm txt (p_receivedAt p))) (fst s);
                   guestState = getGuestState frm in
          (case classifyIntent e txt guestState (snd s) of
             (Inl err, h1) \<Rightarrow> (Inl err, w1, h1)
           | (Inr intentResult, h1) \<Rightarrow>
               (case decide_reply e (current h1) txt guestState (p_receivedAt p) intentResult of
                  Inl err \<Rightarrow> (Inl err, w1, h1)
                | Inr (replyText, needFollowup, followupReason) \<Rightarrow>
                    (case persist_p0 e frm guestState incomingId
                            (isNightTime (seoul_hours e) (p_receivedAt p))
                            intentResult replyText needFollowup followupReason w1 of
                       (res, w2) \<Rightarrow> (res, w2, h1))))
      | _ \<Rightarrow> (Inr (Json_error 400 (js ''from, text is required'')), s))"

text \<open>The handler: its \<open>catch\<close> answers 500 and issues no \<open>ROLLBACK\<close>.\<close>

definition sms_webhook_p0 ::
  "env_p0 \<Rightarrow> body \<Rightarrow> world \<times> cached_config_p0 heap \<Rightarrow> response \<times> world \<times> cached_config_p0 heap" where
  "sms_webhook_p0 e b s =
     (if connect_fails e then (NoResponse, s)
      else case webhook_try_p0 e b s of
        (Inr resp, s1) \<Rightarrow> (resp, s1)
      | (Inl err, s1) \<Rightarrow> (Json_error 500 (js ''internal_server_error''), s1))"

text \<open>The IN row once the \<open>UPDATE\<close> of step 8 of this handler has set its five columns.\<close>

definition handled_in_row_p0 ::
  "nat \<Rightarrow> js_string \<Rightarrow> js_string \<Rightarrow> int \<Rightarrow> intent_result \<Rightarrow> bool \<Rightarrow> message" where
  "handled_in_row_p0 i frm txt t intentResult needFollowup =
     (in_row i frm txt t)\<lparr>msg_intent := Some (ir_intent intentResult),
        msg_confidence := Some (ir_confidence intentResult),
        msg_guest_state := Some (js ''UNKNOWN''),
        msg_need_followup := Some needFollowup,
        msg_resolved := Some (\<not> needFollowup)\<rparr>"

section \<open>Comparing two runs of the handler of server.js\<close>





section \<open>Sample data\<close>

text \<open>
  A store with one earlier message of the sender and one of another number, a request of
  the sender received at 15:00 on 3 December 2025 in Korea, and surroundings in which
  nothing fails and the model answers with a JSON object.
\<close>

definition sample_tables :: tables where
  "sample_tables =
     \<lparr>messages = [in_row 1 (js ''01011112222'') (js ''hello'') 1764694800000,
                  in_row 2 (js ''01099998888'') (js ''hi'') 1764698400000],
      followup_queue = []\<rparr>"

definition sample_world :: world where
  "sample_world = \<lparr>durable = sample_tables, pending = None, outbox = []\<rparr>"

definition sample_body :: body where
  "sample_body =
     \<lparr>body_from = Some (js ''01011112222''), body_phone = None, body_sender = None,
      body_text = Some (js ''party?''), body_message = None, body_receivedAt = None\<rparr>"

definition sample_json_text :: js_string where
  \<open>sample_json_text = js ''{"reply_text":"ok","need_followup":true}''\<close>

definition sample_untyped_text :: js_string where
  \<open>sample_untyped_text = js ''{"reply_text":7,"flow_type":5}''\<close>

text \<open>
  The values of \<open>JSON.parse\<close> on the three texts used below. The samples give it no other
  text, so the last branch is never read for one that \<open>JSON.parse\<close> would accept.
\<close>

definition sample_parse :: "js_string \<Rightarrow> json option" where
  "sample_parse s =
     (if s = sample_json_text
      then Some (JObject [(js ''reply_text'', JString (js ''ok'')), (js ''need_followup'', JBool True)])
      else if s = sample_untyped_text
      then Some (JObject [(js ''reply_text'', JNumber 7), (js ''flow_type'', JNumber 5)])
      else if s = js ''{}'' then Some (JObject [])
      else None)"

definition sample_env :: env where
  "sample_env =
     \<lparr>connect_fails = False, fails = (\<lambda>s. False), now = 1764741600000, knowledge_rows = [],
      llm = (\<lambda>prompt. Content (Some sample_json_text)), JSON_parse = sample_parse\<rparr>"

definition update_fails_env :: env where
  "update_fails_env = sample_env\<lparr>fails := (\<lambda>s. s = UPDATE_IN)\<rparr>"

text \<open>
  For \<open>loadConfig\<close> and for the functions of \<open>src/unnamed/part_000\<close>: intents of which
  \<open>CHECKIN\<close> is an action intent, a loaded config, the rows the database returns, and a
  classifier that answers \<open>CHECKIN\<close> without complaint.
\<close>

definition sample_intents :: "intent_row list" where
  "sample_intents =
     [\<lparr>intent_name = js ''CHECKIN'', intent_description = js ''check-in time'',
       is_action = True, is_complaint_like = False\<rparr>,
      \<lparr>intent_name = js ''PARKING'', intent_description = js ''parking'',
       is_action = False, is_complaint_like = False\<rparr>]"

definition sample_config_p0 :: cached_config_p0 where
  "sample_config_p0 =
     \<lparr>intents = sample_intents, actionIntentNames = [js ''CHECKIN''],
      lastLoadedAt = Some 1764600000000,
      nightDeferReply = Some DEFAULT_NIGHT_DEFER_REPLY,
      complaintReply = Some DEFAULT_COMPLAINT_REPLY\<rparr>"

definition sample_heap_p0 :: "cached_config_p0 heap" where
  "sample_heap_p0 = initial_heap sample_config_p0"

definition sample_reads :: config_reads where
  "sample_reads =
     \<lparr>pool_connect_fails = False, intentsRes = Some sample_intents,
      settingsRes = Some [(js ''complaint_reply'', Some (js ''Sorry.''))], tmplRes = Some []\<rparr>"

definition checkin_text :: js_string where
  \<open>checkin_text = js ''{"intent":"CHECKIN","confidence":0.9,"is_complaint":false}''\<close>

definition sample_parse_p0 :: "js_string \<Rightarrow> json option" where
  "sample_parse_p0 s =
     (if s = checkin_text
      then Some (JObject [(js ''intent'', JString (js ''CHECKIN'')), (js ''confidence'', JNumber (9 / 10)),
                          (js ''is_complaint'', JBool False)])
      else None)"

text \<open>
  The hour of the day nine hours ahead of UTC. On the dates of the sample data, in
  December 2025, this is the hour in Korea, and the hour \<open>isNightTime\<close> reads on a server
  whose zone has no clock change on these days.
\<close>

definition hour_at_utc9 :: "int \<Rightarrow> int" where
  "hour_at_utc9 date = (date div 3600000 + 9) mod 24"

definition sample_env_p0 :: env_p0 where
  "sample_env_p0 =
     \<lparr>connect_fails = False, fails = (\<lambda>s. False), now = 1764741600000, knowledge_rows = [],
      llm = (\<lambda>prompt. Rejected), JSON_parse = sample_parse_p0,
      reads = sample_reads,
      classifier = (\<lambda>intentRows txt guestState. Content (Some checkin_text)),
      knowledge_for = (\<lambda>intentName. []),
      seoul_hours = (\<lambda>date. Some (hour_at_utc9 date))\<rparr>"

text \<open>
  For \<open>server.js\<close>: a request with an empty text, one with \<open>receivedAt\<close> 0 as well, and the
  request of the sender received at 04:00 on 3 December 2025 in Korea. Surroundings in
  which the \<open>UPDATE\<close> of step 7 and the \<open>ROLLBACK\<close> both fail, as on a lost connection, and
  surroundings in which \<open>pool.connect()\<close> rejects. A model that answers for the action
  intent \<open>CHECKIN\<close>, asks for no follow-up and reports a complaint.
\<close>

definition blank_body :: body where
  "blank_body = sample_body\<lparr>body_text := Some [], body_message := None\<rparr>"

definition zero_time_body :: body where
  "zero_time_body = blank_body\<lparr>body_receivedAt := Some 0\<rparr>"

definition night_body :: body where
  "night_body = sample_body\<lparr>body_receivedAt := Some 1764702000000\<rparr>"

definition rollback_fails_env :: env where
  "rollback_fails_env = sample_env\<lparr>fails := (\<lambda>s. s = UPDATE_IN \<or> s = ROLLBACK)\<rparr>"

definition no_connection_env :: env where
  "no_connection_env = sample_env\<lparr>connect_fails := True\<rparr>"

definition flagged_text :: js_string where
  \<open>flagged_text = js ''{"reply_text":"ok","intent":"CHECKIN","is_complaint":true}''\<close>

definition flagged_parse :: "js_string \<Rightarrow> json option" where
  "flagged_parse s =
     (if s = flagged_text
      then Some (JObject [(js ''reply_text'', JString (js ''ok'')),
                          (js ''intent'', JString (js ''CHECKIN'')),
                          (js ''is_complaint'', JBool True)])
      else None)"

definition flagged_env :: env where
  "flagged_env =
     sample_env\<lparr>llm := (\<lambda>prompt. Content (Some flagged_text)), JSON_parse := flagged_parse\<rparr>"

text \<open>
  Template rows for \<open>loadConfig\<close>: two intents, and a row whose \<open>intent_name\<close> is
  \<open>constructor\<close>.
\<close>

definition sample_templates :: "template_row list" where
  "sample_templates =
     [\<lparr>tr_intent_name = js ''CHECKIN'', tr_sub_intent = Some (js ''EARLY''),
       tr_display_label = Some (js ''early''), tr_message = Some (js ''from 3 pm'')\<rparr>,
      \<lparr>tr_intent_name = js ''PARKING'', tr_sub_intent = None,
       tr_display_label = None, tr_message = Some (js ''behind the house'')\<rparr>,
      \<lparr>tr_intent_name = js ''CHECKIN'', tr_sub_intent = Some (js ''LATE''),
       tr_display_label = Some (js ''late''), tr_message = Some (js ''until 10 pm'')\<rparr>]"

definition inherited_name_row :: template_row where
  "inherited_name_row =
     \<lparr>tr_intent_name = js ''constructor'', tr_sub_intent = None,
      tr_display_label = None, tr_message = Some (js ''hello'')\<rparr>"

section \<open>Lemmas on the store\<close>

lemma fold_max_ge_init: "a \<le> fold max xs (a::nat)"
  by (induction xs arbitrary: a) (auto intro: order_trans [OF max.cobounded2])

lemma fold_max_ge_elem: "x \<in> set xs \<Longrightarrow> x \<le> fold max xs (a::nat)"
proof (induction xs arbitrary: a)
  case Nil
  then show ?case by simp
next
  case (Cons y ys)
  show ?case
  proof (cases "x = y")
    case True
    have "y \<le> max y a" by simp
    also have "\<dots> \<le> fold max ys (max y a)" by (rule fold_max_ge_init)
    finally show ?thesis using True by simp
  next
    case False
    with Cons show ?thesis by simp
  qed
qed

lemma next_id_fresh: "m \<in> set ms \<Longrightarrow> msg_id m < next_id ms"
  unfolding next_id_def using fold_max_ge_elem [of "msg_id m" "map msg_id ms" 0] by simp

lemma next_id_snoc: "msg_id m = next_id ms \<Longrightarrow> next_id (ms @ [m]) = Suc (next_id ms)"
  by (simp add: next_id_def)

lemma map_update_fresh:
  "map (\<lambda>m. if msg_id m = next_id ms then f m else m) ms = ms"
  by (rule map_idI) (use next_id_fresh in fastforce)

lemma insert_simps:
  "messages (insert_message m t) = messages t @ [m]"
  "followup_queue (insert_message m t) = followup_queue t"
  "messages (insert_followup f t) = messages t"
  "followup_queue (insert_followup f t) = followup_queue t @ [f]"
  by (simp_all add: insert_message_def insert_followup_def)

lemma trim_Nil: "trim [] = []"
  by (simp add: trim_def)

section \<open>Lemmas on the handler of server.js\<close>

lemma runOrch_total: "\<exists>r. runOrchestratorLLM l p t g h k = Inr r"
  unfolding runOrchestratorLLM_def Let_def by (cases "orchestrator_try p (l (trim (buildOrchestratorUserPrompt t g h k)))") simp_all

lemma record_inbound_durable:
  assumes "record_inbound e frm txt t w = (res, w1)"
  shows "durable w1 = durable w \<and> outbox w1 = outbox w"
  using assms
  by (auto simp: record_inbound_def Let_def tx_begin_def db_write_def split: if_splits option.splits)

lemma record_inbound_Inr:
  assumes "record_inbound e frm txt t w = (Inr x, w1)"
  shows "pending w1 \<noteq> None \<and> \<not> fails e BEGIN \<and> \<not> fails e INSERT_IN
       \<and> \<not> fails e SELECT_HISTORY \<and> \<not> fails e SELECT_KNOWLEDGE"
  using assms
  by (auto simp: record_inbound_def Let_def tx_begin_def db_write_def split: if_splits option.splits)

lemma record_inbound_exact:
  assumes "record_inbound e frm txt t w = (Inr (i, history, kb), w1)" "pending w = None"
  shows "i = next_id (messages (durable w)) \<and>
         w1 = w\<lparr>pending := Some (insert_message (in_row i frm txt t) (durable w))\<rparr> \<and>
         history = map (\<lambda>r. (msg_direction r, msg_text r))
                     (rev (select_history frm (insert_message (in_row i frm txt t) (durable w)))) \<and>
         kb = knowledge_rows e"
  using assms
  by (auto simp: record_inbound_def Let_def tx_begin_def db_write_def view_def split: if_splits)

lemma send_reply_durable:
  assumes "send_reply e frm g i r w = (res, w1)" "pending w \<noteq> None"
  shows "durable w1 = durable w \<and> pending w1 \<noteq> None"
  using assms
  by (auto simp: send_reply_def Let_def db_write_def split: if_splits option.splits json.splits)

lemma send_reply_Some:
  assumes "send_reply e frm g i r w = (Inr (Some j), w1)"
  shows "\<not> fails e INSERT_OUT"
  using assms
  by (auto simp: send_reply_def Let_def split: if_splits json.splits)

lemma send_reply_exact:
  assumes "send_reply e frm g i r w = (Inr out, w1)" "pending w = Some t"
  shows "(out = None \<and> w1 = w \<and> (\<forall>s. reply_text r = JString s \<longrightarrow> trim s = []))
       \<or> (\<exists>s. reply_text r = JString s \<and> trim s \<noteq> [] \<and> out = Some (next_id (messages t)) \<and>
             w1 = w\<lparr>outbox := outbox w @ [(frm, Some s)],
                    pending := Some (insert_message (out_row (next_id (messages t)) frm s g i r) t)\<rparr>)"
  using assms
  by (auto simp: send_reply_def Let_def db_write_def view_def trim_Nil split: if_splits json.splits)

lemma enqueue_followup_durable:
  assumes "enqueue_followup e i r w = (res, w1)" "pending w \<noteq> None"
  shows "durable w1 = durable w \<and> pending w1 \<noteq> None"
  using assms
  by (auto simp: enqueue_followup_def db_write_def split: if_splits option.splits)

lemma enqueue_followup_exact:
  assumes "enqueue_followup e i r w = (Inr u, w1)" "pending w = Some t"
  shows "w1 = (if need_followup r
               then w\<lparr>pending := Some (insert_followup \<lparr>fu_message_id = i,
                      fu_status = js ''PENDING'', fu_reason = Some (js ''LLM_FLAGGED'')\<rparr> t)\<rparr>
               else w)"
  using assms
  by (auto simp: enqueue_followup_def db_write_def split: if_splits)

lemma persist_outcome_cases:
  assumes "persist_outcome e frm g i r w = (res, w1)" "pending w \<noteq> None"
  shows "(\<exists>err. res = Inl err \<and> durable w1 = durable w)
       \<or> (\<exists>ok. res = Inr (Json_ok ok) \<and> pending w1 = None \<and> \<not> fails e UPDATE_IN
              \<and> \<not> fails e COMMIT \<and> (outgoing_id ok \<noteq> None \<longrightarrow> \<not> fails e INSERT_OUT)
              \<and> (need_followup r \<longrightarrow> \<not> fails e INSERT_FOLLOWUP))"
proof (cases "send_reply e frm g i r w")
  case (Pair a w2)
  note sr = send_reply_durable [OF Pair assms(2)]
  show ?thesis
  proof (cases a)
    case (Inl err)
    with Pair assms sr show ?thesis by (auto simp: persist_outcome_def)
  next
    case (Inr outgoingId)
    have io: "outgoingId \<noteq> None \<longrightarrow> \<not> fails e INSERT_OUT"
      using Pair Inr send_reply_Some by (cases outgoingId) auto
    show ?thesis
    proof (cases "enqueue_followup e i r w2")
      case (Pair c w3)
      note ef = enqueue_followup_durable [OF Pair(1)] sr
      show ?thesis
      proof (cases c)
        case (Inl err)
        with Pair \<open>send_reply e frm g i r w = (a, w2)\<close> Inr assms ef show ?thesis
          by (auto simp: persist_outcome_def)
      next
        case (Inr u)
        have nf: "need_followup r \<longrightarrow> \<not> fails e INSERT_FOLLOWUP"
          using Pair Inr by (auto simp: enqueue_followup_def split: if_splits)
        from ef obtain t3 where t3: "pending w3 = Some t3" "durable w3 = durable w" by auto
        show ?thesis
          using Pair \<open>send_reply e frm g i r w = (a, w2)\<close> \<open>a = Inr outgoingId\<close> Inr assms(1) io nf t3
          by (auto simp: persist_outcome_def Let_def db_write_def tx_commit_def split: if_splits)
      qed
    qed
  qed
qed

lemma persist_outcome_exact:
  assumes po: "persist_outcome e frm g i r w = (Inr (Json_ok ok), w')" and tx: "pending w = Some t"
  shows "\<exists>out t1.
     (out = None \<and> t1 = t \<and> outbox w' = outbox w \<and> (\<forall>s. reply_text r = JString s \<longrightarrow> trim s = [])
      \<or> (\<exists>s. reply_text r = JString s \<and> trim s \<noteq> [] \<and> out = Some (next_id (messages t)) \<and>
              t1 = insert_message (out_row (next_id (messages t)) frm s g i r) t \<and>
              outbox w' = outbox w @ [(frm, Some s)])) \<and>
     durable w' = update_in i g r
        (if need_followup r then insert_followup \<lparr>fu_message_id = i,
            fu_status = js ''PENDING'', fu_reason = Some (js ''LLM_FLAGGED'')\<rparr> t1 else t1) \<and>
     pending w' = None \<and>
     ok = \<lparr>incoming_id = i, outgoing_id = out, ok_intent = intent r,
           ok_flow_type = flow_type r, ok_end_flow = end_flow r\<rparr>"
proof -
  from po obtain out w1 u w2 where
    sr: "send_reply e frm g i r w = (Inr out, w1)" and
    ef: "enqueue_followup e i r w1 = (Inr u, w2)" and
    fin: "\<not> fails e UPDATE_IN" "\<not> fails e COMMIT"
         "w' = tx_commit (db_write (update_in i g r) w2)"
         "ok = \<lparr>incoming_id = i, outgoing_id = out, ok_intent = intent r,
           ok_flow_type = flow_type r, ok_end_flow = end_flow r\<rparr>"
    by (auto simp: persist_outcome_def Let_def split: prod.splits sum.splits if_splits)
  from send_reply_exact [OF sr tx] show ?thesis
  proof
    assume a: "out = None \<and> w1 = w \<and> (\<forall>s. reply_text r = JString s \<longrightarrow> trim s = [])"
    with ef tx have "w2 = (if need_followup r
               then w\<lparr>pending := Some (insert_followup \<lparr>fu_message_id = i,
                      fu_status = js ''PENDING'', fu_reason = Some (js ''LLM_FLAGGED'')\<rparr> t)\<rparr>
               else w)"
      using enqueue_followup_exact [of e i r w u w2 t] by simp
    with a fin tx show ?thesis
      by (auto simp: db_write_def tx_commit_def)
  next
    assume "\<exists>s. reply_text r = JString s \<and> trim s \<noteq> [] \<and> out = Some (next_id (messages t)) \<and>
             w1 = w\<lparr>outbox := outbox w @ [(frm, Some s)],
                    pending := Some (insert_message (out_row (next_id (messages t)) frm s g i r) t)\<rparr>"
    then obtain s where b: "reply_text r = JString s" "trim s \<noteq> []" "out = Some (next_id (messages t))"
       "w1 = w\<lparr>outbox := outbox w @ [(frm, Some s)],
                    pending := Some (insert_message (out_row (next_id (messages t)) frm s g i r) t)\<rparr>"
      by blast
    let ?t1 = "insert_message (out_row (next_id (messages t)) frm s g i r) t"
    from b have p1: "pending w1 = Some ?t1" by simp
    from enqueue_followup_exact [OF ef p1] have "w2 = (if need_followup r
               then w1\<lparr>pending := Some (insert_followup \<lparr>fu_message_id = i,
                      fu_status = js ''PENDING'', fu_reason = Some (js ''LLM_FLAGGED'')\<rparr> ?t1)\<rparr>
               else w1)" .
    with b fin show ?thesis
      by (auto simp: db_write_def tx_commit_def)
  qed
qed

lemma update_in_messages:
  assumes "i = next_id ms" "\<forall>m \<in> set outs. msg_id m \<noteq> i"
    and "messages t = ms @ in_row i frm txt recv # outs"
  shows "messages (update_in i (getGuestState frm) r t) = ms @ handled_in_row i frm txt recv r # outs"
proof -
  have "map (\<lambda>m. if msg_id m = i then f m else m) outs = outs" for f
    by (rule map_idI) (use assms(2) in auto)
  then show ?thesis
    using assms(1,3)
    by (simp add: update_in_def map_update_fresh handled_in_row_def getGuestState_def js_def in_row_def)
qed

lemma update_in_followup_queue: "followup_queue (update_in i g r t) = followup_queue t"
  by (simp add: update_in_def)

lemma webhook_try_ok_stages:
  assumes "webhook_try e b w = (Inr (Json_ok ok), w')"
  shows "\<exists>frm txt i h kb w1 r.
           p_from (parseSmsProviderPayload (now e) b) = Some frm \<and>
           p_text (parseSmsProviderPayload (now e) b) = Some txt \<and> frm \<noteq> [] \<and> txt \<noteq> [] \<and>
           record_inbound e frm txt (p_receivedAt (parseSmsProviderPayload (now e) b)) w
             = (Inr (i, h, kb), w1) \<and>
           runOrchestratorLLM (llm e) (JSON_parse e) txt (getGuestState frm) h kb = Inr r \<and>
           persist_outcome e frm (getGuestState frm) i r w1 = (Inr (Json_ok ok), w')"
  using assms
  by (auto simp: webhook_try_def Let_def split: option.splits if_splits prod.splits sum.splits)

lemma sms_webhook_ok_effect:
  assumes run: "sms_webhook e b w = (Json_ok ok, w')" and idle: "pending w = None"
  shows "\<exists>frm txt r outs.
     p_from (parseSmsProviderPayload (now e) b) = Some frm \<and>
     p_text (parseSmsProviderPayload (now e) b) = Some txt \<and> frm \<noteq> [] \<and> txt \<noteq> [] \<and>
     incoming_id ok = next_id (messages (durable w)) \<and>
     runOrchestratorLLM (llm e) (JSON_parse e) txt (js ''UNKNOWN'')
        (map (\<lambda>m. (msg_direction m, msg_text m))
           (rev (select_history frm (insert_message
              (in_row (incoming_id ok) frm txt (p_receivedAt (parseSmsProviderPayload (now e) b)))
              (durable w)))))
        (knowledge_rows e) = Inr r \<and>
     ok_intent ok = intent r \<and> ok_flow_type ok = flow_type r \<and> ok_end_flow ok = end_flow r \<and>
     messages (durable w') = messages (durable w)
        @ handled_in_row (incoming_id ok) frm txt (p_receivedAt (parseSmsProviderPayload (now e) b)) r # outs \<and>
     (outs = [] \<and> outgoing_id ok = None \<and> outbox w' = outbox w \<and>
        (\<forall>s. reply_text r = JString s \<longrightarrow> trim s = [])
      \<or> (\<exists>s. reply_text r = JString s \<and> trim s \<noteq> [] \<and>
            outs = [out_row (Suc (incoming_id ok)) frm s (js ''UNKNOWN'') (incoming_id ok) r] \<and>
            outgoing_id ok = Some (Suc (incoming_id ok)) \<and>
            outbox w' = outbox w @ [(frm, Some s)])) \<and>
     followup_queue (durable w') = followup_queue (durable w)
        @ (if need_followup r then [\<lparr>fu_message_id = incoming_id ok,
              fu_status = js ''PENDING'', fu_reason = Some (js ''LLM_FLAGGED'')\<rparr>] else []) \<and>
     pending w' = None \<and>
     \<not> fails e BEGIN \<and> \<not> fails e INSERT_IN \<and> \<not> fails e SELECT_HISTORY \<and>
     \<not> fails e SELECT_KNOWLEDGE \<and> \<not> fails e UPDATE_IN \<and> \<not> fails e COMMIT \<and>
     (outgoing_id ok \<noteq> None \<longrightarrow> \<not> fails e INSERT_OUT) \<and>
     (need_followup r \<longrightarrow> \<not> fails e INSERT_FOLLOWUP)"
proof -
  let ?p = "parseSmsProviderPayload (now e) b"
  from run have wt: "webhook_try e b w = (Inr (Json_ok ok), w')"
    by (auto simp: sms_webhook_def split: if_splits prod.splits sum.splits)
  from webhook_try_ok_stages [OF wt] obtain frm msg i h kb w1 r where
    st: "p_from ?p = Some frm" "p_text ?p = Some msg" "frm \<noteq> []" "msg \<noteq> []"
        "record_inbound e frm msg (p_receivedAt ?p) w = (Inr (i, h, kb), w1)"
        "runOrchestratorLLM (llm e) (JSON_parse e) msg (getGuestState frm) h kb = Inr r"
        "persist_outcome e frm (getGuestState frm) i r w1 = (Inr (Json_ok ok), w')"
    by blast
  let ?recv = "p_receivedAt ?p"
  let ?ms = "messages (durable w)"
  from record_inbound_exact [OF st(5) idle] have
    i: "i = next_id ?ms" and
    w1: "pending w1 = Some (insert_message (in_row i frm msg ?recv) (durable w))" "outbox w1 = outbox w" and
    hk: "h = map (\<lambda>r. (msg_direction r, msg_text r))
                     (rev (select_history frm (insert_message (in_row i frm msg ?recv) (durable w))))"
        "kb = knowledge_rows e"
    by simp_all
  note orch = st(6) [unfolded hk getGuestState_def]
  have p1: "pending w1 \<noteq> None" using w1(1) by simp
  have nofail: "\<not> fails e BEGIN \<and> \<not> fails e INSERT_IN \<and> \<not> fails e SELECT_HISTORY \<and>
     \<not> fails e SELECT_KNOWLEDGE \<and> \<not> fails e UPDATE_IN \<and> \<not> fails e COMMIT \<and>
     (outgoing_id ok \<noteq> None \<longrightarrow> \<not> fails e INSERT_OUT) \<and>
     (need_followup r \<longrightarrow> \<not> fails e INSERT_FOLLOWUP)"
    using record_inbound_Inr [OF st(5)] persist_outcome_cases [OF st(7) p1] by auto
  let ?tin = "insert_message (in_row i frm msg ?recv) (durable w)"
  have nid: "next_id (messages ?tin) = Suc i"
    using i by (simp add: insert_message_def next_id_snoc in_row_def)
  from persist_outcome_exact [OF st(7) w1(1)] obtain out t1 where
    pe: "out = None \<and> t1 = ?tin \<and> outbox w' = outbox w1 \<and> (\<forall>s. reply_text r = JString s \<longrightarrow> trim s = [])
      \<or> (\<exists>s. reply_text r = JString s \<and> trim s \<noteq> [] \<and> out = Some (next_id (messages ?tin)) \<and>
              t1 = insert_message (out_row (next_id (messages ?tin)) frm s (getGuestState frm) i r) ?tin \<and>
              outbox w' = outbox w1 @ [(frm, Some s)])"
    and du: "durable w' = update_in i (getGuestState frm) r
        (if need_followup r then insert_followup \<lparr>fu_message_id = i,
            fu_status = js ''PENDING'', fu_reason = Some (js ''LLM_FLAGGED'')\<rparr> t1 else t1)"
    and fin: "pending w' = None" "ok = \<lparr>incoming_id = i, outgoing_id = out, ok_intent = intent r,
           ok_flow_type = flow_type r, ok_end_flow = end_flow r\<rparr>"
    by blast
  from pe show ?thesis
  proof
    assume a: "out = None \<and> t1 = ?tin \<and> outbox w' = outbox w1 \<and> (\<forall>s. reply_text r = JString s \<longrightarrow> trim s = [])"
    have "messages (durable w') = ?ms @ handled_in_row i frm msg ?recv r # []"
      unfolding du by (rule update_in_messages [OF i]) (use a in \<open>simp_all add: insert_simps\<close>)
    moreover have "followup_queue (durable w') = followup_queue (durable w)
        @ (if need_followup r then [\<lparr>fu_message_id = i,
              fu_status = js ''PENDING'', fu_reason = Some (js ''LLM_FLAGGED'')\<rparr>] else [])"
      unfolding du update_in_followup_queue using a by (simp add: insert_simps)
    ultimately show ?thesis using a st(1-4) orch fin w1 i nofail by auto
  next
    assume "\<exists>s. reply_text r = JString s \<and> trim s \<noteq> [] \<and> out = Some (next_id (messages ?tin)) \<and>
              t1 = insert_message (out_row (next_id (messages ?tin)) frm s (getGuestState frm) i r) ?tin \<and>
              outbox w' = outbox w1 @ [(frm, Some s)]"
    then obtain s where b: "reply_text r = JString s" "trim s \<noteq> []" "out = Some (Suc i)"
         "t1 = insert_message (out_row (Suc i) frm s (getGuestState frm) i r) ?tin"
         "outbox w' = outbox w1 @ [(frm, Some s)]"
      using nid by auto
    let ?o = "out_row (Suc i) frm s (getGuestState frm) i r"
    have oid: "\<forall>m \<in> set [?o]. msg_id m \<noteq> i" by (simp add: out_row_def)
    have "messages (durable w') = ?ms @ handled_in_row i frm msg ?recv r # [?o]"
      unfolding du by (rule update_in_messages [OF i oid]) (use b in \<open>simp_all add: insert_simps\<close>)
    moreover have "followup_queue (durable w') = followup_queue (durable w)
        @ (if need_followup r then [\<lparr>fu_message_id = i,
              fu_status = js ''PENDING'', fu_reason = Some (js ''LLM_FLAGGED'')\<rparr>] else [])"
      unfolding du update_in_followup_queue using b by (simp add: insert_simps)
    ultimately show ?thesis using b st(1-4) orch fin w1 i nofail by (auto simp: getGuestState_def)
  qed
qed

lemma webhook_try_error_durable:
  assumes "webhook_try e b w = (Inl err, w1)"
  shows "durable w1 = durable w"
proof -
  let ?p = "parseSmsProviderPayload (now e) b"
  from assms obtain frm msg where
    pf: "p_from ?p = Some frm" "p_text ?p = Some msg" "frm \<noteq> []" "msg \<noteq> []"
    by (auto simp: webhook_try_def Let_def split: option.splits if_splits)
  obtain res0 w0 where ri: "record_inbound e frm msg (p_receivedAt ?p) w = (res0, w0)"
    by (cases "record_inbound e frm msg (p_receivedAt ?p) w") auto
  note d0 = record_inbound_durable [OF ri]
  show ?thesis
  proof (cases res0)
    case (Inl a)
    with assms pf ri d0 show ?thesis
      by (auto simp: webhook_try_def Let_def)
  next
    case (Inr x)
    obtain i h kb where x: "x = (i, h, kb)" by (cases x) auto
    from ri Inr x have p0: "pending w0 \<noteq> None" using record_inbound_Inr by blast
    obtain r where r: "runOrchestratorLLM (llm e) (JSON_parse e) msg (getGuestState frm) h kb = Inr r"
      using runOrch_total by blast
    from assms pf ri Inr x r have "persist_outcome e frm (getGuestState frm) i r w0 = (Inl err, w1)"
      by (auto simp: webhook_try_def Let_def)
    from persist_outcome_cases [OF this p0] d0 show ?thesis by auto
  qed
qed

lemma webhook_try_validated:
  assumes "validated (parseSmsProviderPayload (now e) b)" "webhook_try e b w = (Inr resp, w1)"
  shows "\<exists>ok. resp = Json_ok ok"
proof -
  let ?p = "parseSmsProviderPayload (now e) b"
  from assms(1) obtain frm msg where
    pf: "p_from ?p = Some frm" "p_text ?p = Some msg" "frm \<noteq> []" "msg \<noteq> []"
    by (auto simp: validated_def split: option.splits)
  obtain res0 w0 where ri: "record_inbound e frm msg (p_receivedAt ?p) w = (res0, w0)"
    by (cases "record_inbound e frm msg (p_receivedAt ?p) w") auto
  show ?thesis
  proof (cases res0)
    case (Inl a)
    with assms pf ri show ?thesis by (auto simp: webhook_try_def Let_def)
  next
    case (Inr x)
    obtain i h kb where x: "x = (i, h, kb)" by (cases x) auto
    from ri Inr x have p0: "pending w0 \<noteq> None" using record_inbound_Inr by blast
    obtain r where r: "runOrchestratorLLM (llm e) (JSON_parse e) msg (getGuestState frm) h kb = Inr r"
      using runOrch_total by blast
    from assms pf ri Inr x r have "persist_outcome e frm (getGuestState frm) i r w0 = (Inr resp, w1)"
      by (auto simp: webhook_try_def Let_def)
    from persist_outcome_cases [OF this p0] show ?thesis by auto
  qed
qed

lemma webhook_try_Inr_cases:
  assumes "webhook_try e b w = (Inr resp, w1)"
  shows "(\<exists>ok. resp = Json_ok ok) \<or> (resp = Json_error 400 (js ''from, text is required'') \<and> w1 = w
           \<and> \<not> validated (parseSmsProviderPayload (now e) b))"
proof (cases "validated (parseSmsProviderPayload (now e) b)")
  case True
  from webhook_try_validated [OF True assms] show ?thesis by blast
next
  case False
  with assms show ?thesis
    by (auto simp: webhook_try_def validated_def Let_def split: option.splits if_splits)
qed

lemma sms_webhook_not_ok_durable:
  assumes "sms_webhook e b w = (resp, w')" "\<forall>ok. resp \<noteq> Json_ok ok"
  shows "durable w' = durable w"
proof (cases "connect_fails e")
  case True
  with assms show ?thesis by (simp add: sms_webhook_def)
next
  case False
  obtain res w1 where wt: "webhook_try e b w = (res, w1)" by (cases "webhook_try e b w") auto
  show ?thesis
  proof (cases res)
    case (Inl err)
    from webhook_try_error_durable wt Inl have "durable w1 = durable w" by blast
    with assms False wt Inl show ?thesis
      by (auto simp: sms_webhook_def tx_rollback_def split: if_splits)
  next
    case (Inr r0)
    with assms False wt have "resp = r0" "w' = w1" by (simp_all add: sms_webhook_def)
    with webhook_try_Inr_cases wt Inr assms(2) show ?thesis by blast
  qed
qed



section \<open>Lemmas on the handler of \<^verbatim>\<open>src/unnamed/part_000\<close>\<close>

lemma update_in_p0_messages:
  assumes "i = next_id ms" "\<forall>m \<in> set outs. msg_id m \<noteq> i"
    and "messages t = ms @ in_row i frm txt recv # outs"
  shows "messages (update_in_p0 i (getGuestState frm) ir nf t)
       = ms @ handled_in_row_p0 i frm txt recv ir nf # outs"
proof -
  have "map (\<lambda>m. if msg_id m = i then f m else m) outs = outs" for f
    by (rule map_idI) (use assms(2) in auto)
  then show ?thesis
    using assms(1,3)
    by (simp add: update_in_p0_def map_update_fresh handled_in_row_p0_def getGuestState_def js_def in_row_def)
qed

lemma update_in_p0_followup_queue: "followup_queue (update_in_p0 i g ir nf t) = followup_queue t"
  by (simp add: update_in_p0_def)

lemma persist_p0_exact:
  assumes po: "persist_p0 e frm g i night ir reply nf reason w = (Inr resp, w')"
    and idle: "pending w = None"
  shows "resp = Json_ok_p0 \<lparr>incoming_id_p0 = i, outgoing_id_p0 = next_id (messages (durable w)),
                    ok_intent_p0 = ir_intent ir, ok_guest_state = g,
                    ok_night = night, ok_need_followup = nf\<rparr> \<and>
         outbox w' = outbox w @ [(frm, reply)] \<and> pending w' = None \<and>
         durable w' = update_in_p0 i g ir nf
            ((if nf then insert_followup \<lparr>fu_message_id = i, fu_status = js ''PENDING'',
                      fu_reason = reason\<rparr> else (\<lambda>t. t))
               (insert_message (out_row_p0 (next_id (messages (durable w))) frm reply g i ir nf)
                  (durable w)))"
  using assms
  by (auto simp: persist_p0_def Let_def db_write_def view_def split: if_splits)

lemma webhook_try_p0_ok_stages:
  assumes "webhook_try_p0 e b (w, h) = (Inr (Json_ok_p0 ok), w', h')"
  shows "\<exists>frm txt ir reply nf reason.
           p_from (parseSmsProviderPayload (now e) b) = Some frm \<and>
           p_text (parseSmsProviderPayload (now e) b) = Some txt \<and> frm \<noteq> [] \<and> txt \<noteq> [] \<and>
           \<not> fails e INSERT_IN \<and>
           classifyIntent e txt (getGuestState frm) h = (Inr ir, h') \<and>
           decide_reply e (current h') txt (getGuestState frm)
              (p_receivedAt (parseSmsProviderPayload (now e) b)) ir = Inr (reply, nf, reason) \<and>
           persist_p0 e frm (getGuestState frm) (next_id (messages (view w)))
              (isNightTime (seoul_hours e) (p_receivedAt (parseSmsProviderPayload (now e) b))) ir reply nf reason
              (db_write (insert_message (in_row (next_id (messages (view w))) frm txt
                   (p_receivedAt (parseSmsProviderPayload (now e) b)))) w)
             = (Inr (Json_ok_p0 ok), w')"
  using assms
  by (auto simp: webhook_try_p0_def Let_def split: option.splits if_splits prod.splits sum.splits)

lemma sms_webhook_p0_ok_effect:
  assumes run: "sms_webhook_p0 e b (w, h) = (Json_ok_p0 ok, w', h')" and idle: "pending w = None"
  shows "\<exists>frm txt ir reply nf reason.
     p_from (parseSmsProviderPayload (now e) b) = Some frm \<and>
     p_text (parseSmsProviderPayload (now e) b) = Some txt \<and> frm \<noteq> [] \<and> txt \<noteq> [] \<and>
     classifyIntent e txt (js ''UNKNOWN'') h = (Inr ir, h') \<and>
     decide_reply e (current h') txt (js ''UNKNOWN'')
        (p_receivedAt (parseSmsProviderPayload (now e) b)) ir = Inr (reply, nf, reason) \<and>
     incoming_id_p0 ok = next_id (messages (durable w)) \<and>
     outgoing_id_p0 ok = Suc (incoming_id_p0 ok) \<and>
     ok_need_followup ok = nf \<and> ok_intent_p0 ok = ir_intent ir \<and>
     ok_night ok = isNightTime (seoul_hours e) (p_receivedAt (parseSmsProviderPayload (now e) b)) \<and>
     messages (durable w') = messages (durable w)
        @ [handled_in_row_p0 (incoming_id_p0 ok) frm txt
              (p_receivedAt (parseSmsProviderPayload (now e) b)) ir nf,
           out_row_p0 (Suc (incoming_id_p0 ok)) frm reply (js ''UNKNOWN'') (incoming_id_p0 ok) ir nf] \<and>
     followup_queue (durable w') = followup_queue (durable w)
        @ (if nf then [\<lparr>fu_message_id = incoming_id_p0 ok,
              fu_status = js ''PENDING'', fu_reason = reason\<rparr>] else []) \<and>
     outbox w' = outbox w @ [(frm, reply)] \<and> pending w' = None"
proof -
  let ?p = "parseSmsProviderPayload (now e) b"
  let ?recv = "p_receivedAt ?p"
  let ?ms = "messages (durable w)"
  let ?i = "next_id ?ms"
  from run have wt: "webhook_try_p0 e b (w, h) = (Inr (Json_ok_p0 ok), w', h')"
    by (auto simp: sms_webhook_p0_def split: if_splits prod.splits sum.splits)
  have vw: "view w = durable w" using idle by (simp add: view_def)
  from webhook_try_p0_ok_stages [OF wt] obtain frm msg ir reply nf reason where
    st: "p_from ?p = Some frm" "p_text ?p = Some msg" "frm \<noteq> []" "msg \<noteq> []"
        "classifyIntent e msg (getGuestState frm) h = (Inr ir, h')"
        "decide_reply e (current h') msg (getGuestState frm) ?recv ir = Inr (reply, nf, reason)"
        "persist_p0 e frm (getGuestState frm) ?i (isNightTime (seoul_hours e) ?recv) ir reply nf reason
              (db_write (insert_message (in_row ?i frm msg ?recv)) w)
             = (Inr (Json_ok_p0 ok), w')"
    unfolding vw by blast
  let ?w1 = "db_write (insert_message (in_row ?i frm msg ?recv)) w"
  have w1: "pending ?w1 = None" "outbox ?w1 = outbox w"
       "durable ?w1 = insert_message (in_row ?i frm msg ?recv) (durable w)"
    using idle by (simp_all add: db_write_def)
  have "msg_id (in_row ?i frm msg ?recv) = ?i" by (simp add: in_row_def)
  then have nid: "next_id (messages (durable ?w1)) = Suc ?i"
    unfolding w1(3) insert_simps by (rule next_id_snoc)
  from persist_p0_exact [OF st(7) w1(1)] have
    ok: "ok = \<lparr>incoming_id_p0 = ?i, outgoing_id_p0 = Suc ?i,
                    ok_intent_p0 = ir_intent ir, ok_guest_state = getGuestState frm,
                    ok_night = isNightTime (seoul_hours e) ?recv, ok_need_followup = nf\<rparr>"
    and ob: "outbox w' = outbox w @ [(frm, reply)]" "pending w' = None"
    and du: "durable w' = update_in_p0 ?i (getGuestState frm) ir nf
            ((if nf then insert_followup \<lparr>fu_message_id = ?i, fu_status = js ''PENDING'',
                      fu_reason = reason\<rparr> else (\<lambda>t. t))
               (insert_message (out_row_p0 (Suc ?i) frm reply (getGuestState frm) ?i ir nf)
                  (durable ?w1)))"
    unfolding nid w1(2) by simp_all
  let ?o = "out_row_p0 (Suc ?i) frm reply (getGuestState frm) ?i ir nf"
  have oid: "\<forall>m \<in> set [?o]. msg_id m \<noteq> ?i" by (simp add: out_row_p0_def)
  have m: "messages (durable w') = ?ms @ handled_in_row_p0 ?i frm msg ?recv ir nf # [?o]"
    unfolding du by (rule update_in_p0_messages [OF refl oid]) (simp add: insert_simps w1)
  have f: "followup_queue (durable w') = followup_queue (durable w)
        @ (if nf then [\<lparr>fu_message_id = ?i, fu_status = js ''PENDING'', fu_reason = reason\<rparr>] else [])"
    unfolding du update_in_p0_followup_queue by (simp add: insert_simps w1)
  show ?thesis
    using st(1-6) ok ob m f by (auto simp: getGuestState_def)
qed

section \<open>Lemmas on the history\<close>

lemma insort_key_snoc:
  "f y \<le> f x \<Longrightarrow> insort_key f y (zs @ [x]) = insort_key f y zs @ [x]"
  by (induction zs) auto

lemma sort_key_snoc:
  "\<forall>y \<in> set ys. f y \<le> f x \<Longrightarrow> sort_key f (ys @ [x]) = sort_key f ys @ [x]"
proof (induction ys)
  case Nil
  then show ?case by simp
next
  case (Cons y ys)
  then have "sort_key f (ys @ [x]) = sort_key f ys @ [x]" by simp
  moreover have "f y \<le> f x" using Cons.prems by simp
  ultimately show ?case by (simp add: insort_key_snoc)
qed

lemma join_snoc:
  "join sep (xs @ [x]) = (if xs = [] then x else join sep xs @ sep @ x)"
  by (induction sep xs rule: join.induct) auto

lemma rev_take_rev: "rev (take n (rev xs)) = drop (length xs - n) xs"
  by (simp add: take_rev)

lemma history_of_sender:
  assumes i: "i = next_id ms"
  shows "sort_key msg_id (filter (\<lambda>m. msg_phone_number m = frm) (ms @ [in_row i frm txt t]))
       = sort_key msg_id (filter (\<lambda>m. msg_phone_number m = frm) ms) @ [in_row i frm txt t]"
proof -
  have "\<forall>y \<in> set (filter (\<lambda>m. msg_phone_number m = frm) ms). msg_id y \<le> msg_id (in_row i frm txt t)"
    using next_id_fresh [of _ ms] i by (fastforce simp: in_row_def)
  then show ?thesis by (simp add: sort_key_snoc in_row_def)
qed

lemma join_lines_last:
  assumes "hs \<noteq> []"
  shows "\<exists>pre. join sep (map f hs) = pre @ f (last hs)"
proof -
  from assms have "hs = butlast hs @ [last hs]" by simp
  then have "join sep (map f hs) = join sep (map f (butlast hs) @ [f (last hs)])"
    by (metis map_append list.simps(8,9))
  then show ?thesis by (auto simp: join_snoc)
qed

section \<open>Lemmas on the complaint flag\<close>







section \<open>Lemmas on runs at different times\<close>




















section \<open>Lemmas on the template rows\<close>

lemma push_template_own:
  assumes "tr_intent_name row \<in> fst ` set acc"
  shows "\<exists>acc'. push_template row acc = Inr acc' \<and> fst ` set acc' = fst ` set acc"
  using assms
proof (induction acc)
  case Nil
  then show ?case by simp
next
  case (Cons kv acc)
  obtain k vs where kv: "kv = (k, vs)" by (cases kv)
  show ?case
  proof (cases "k = tr_intent_name row")
    case True
    with kv show ?thesis by simp
  next
    case False
    with Cons.prems kv have "tr_intent_name row \<in> fst ` set acc" by auto
    from Cons.IH [OF this] obtain acc' where "push_template row acc = Inr acc'"
      "fst ` set acc' = fst ` set acc" by blast
    with kv False show ?thesis by simp
  qed
qed

lemma push_template_new:
  assumes "tr_intent_name row \<notin> fst ` set acc"
  shows "push_template row acc =
     (if tr_intent_name row \<in> set Object_prototype_keys then Inl TypeError
      else Inr (acc @ [(tr_intent_name row, [\<lparr>sub_intent = tr_sub_intent row,
                   label = tr_display_label row, message_text = tr_message row\<rparr>])]))"
  using assms
proof (induction acc)
  case Nil
  then show ?case by simp
next
  case (Cons kv acc)
  obtain k vs where kv: "kv = (k, vs)" by (cases kv)
  with Cons show ?case by auto
qed

lemma group_templates_throws:
  assumes "\<exists>row \<in> set rows. tr_intent_name row \<in> set Object_prototype_keys"
    and "fst ` set acc \<inter> set Object_prototype_keys = {}"
  shows "group_templates rows acc = Inl TypeError"
  using assms
proof (induction rows arbitrary: acc)
  case Nil
  then show ?case by simp
next
  case (Cons row rows)
  show ?case
  proof (cases "tr_intent_name row \<in> fst ` set acc")
    case True
    from push_template_own [OF True] obtain acc' where
      p: "push_template row acc = Inr acc'" "fst ` set acc' = fst ` set acc" by blast
    from True Cons.prems(2) have "tr_intent_name row \<notin> set Object_prototype_keys" by auto
    with Cons.prems(1) have "\<exists>row \<in> set rows. tr_intent_name row \<in> set Object_prototype_keys" by auto
    from Cons.IH [OF this, of acc'] p Cons.prems(2) show ?thesis by simp
  next
    case False
    show ?thesis
    proof (cases "tr_intent_name row \<in> set Object_prototype_keys")
      case True
      with push_template_new [OF False] show ?thesis by simp
    next
      case notin: False
      let ?acc' = "acc @ [(tr_intent_name row, [\<lparr>sub_intent = tr_sub_intent row,
                   label = tr_display_label row, message_text = tr_message row\<rparr>])]"
      from push_template_new [OF False] notin have p: "push_template row acc = Inr ?acc'" by simp
      from notin Cons.prems(1) have "\<exists>row \<in> set rows. tr_intent_name row \<in> set Object_prototype_keys" by auto
      moreover from notin Cons.prems(2) have "fst ` set ?acc' \<inter> set Object_prototype_keys = {}" by auto
      ultimately have "group_templates rows ?acc' = Inl TypeError" by (rule Cons.IH)
      with p show ?thesis by simp
    qed
  qed
qed

lemma group_templates_returns:
  assumes "\<forall>row \<in> set rows. tr_intent_name row \<notin> set Object_prototype_keys"
  shows "\<exists>tm. group_templates rows acc = Inr tm \<and>
           fst ` set tm = fst ` set acc \<union> tr_intent_name ` set rows"
  using assms
proof (induction rows arbitrary: acc)
  case Nil
  then show ?case by simp
next
  case (Cons row rows)
  show ?case
  proof (cases "tr_intent_name row \<in> fst ` set acc")
    case True
    from push_template_own [OF True] obtain acc' where
      p: "push_template row acc = Inr acc'" "fst ` set acc' = fst ` set acc" by blast
    from Cons.prems have "\<forall>row \<in> set rows. tr_intent_name row \<notin> set Object_prototype_keys" by simp
    from Cons.IH [OF this, of acc'] obtain tm where
      tm: "group_templates rows acc' = Inr tm"
          "fst ` set tm = fst ` set acc' \<union> tr_intent_name ` set rows" by blast
    from True have "insert (tr_intent_name row) (fst ` set acc \<union> tr_intent_name ` set rows)
        = fst ` set acc \<union> tr_intent_name ` set rows" by blast
    with tm p show ?thesis by (intro exI [of _ tm]) simp
  next
    case False
    let ?acc' = "acc @ [(tr_intent_name row, [\<lparr>sub_intent = tr_sub_intent row,
                   label = tr_display_label row, message_text = tr_message row\<rparr>])]"
    from push_template_new [OF False] Cons.prems have p: "push_template row acc = Inr ?acc'" by simp
    from Cons.prems have "\<forall>row \<in> set rows. tr_intent_name row \<notin> set Object_prototype_keys" by simp
    from Cons.IH [OF this, of ?acc'] p show ?thesis by auto
  qed
qed

section \<open>The handlers on the sample data\<close>

lemmas sample_defs =
  sample_tables_def sample_world_def sample_body_def sample_env_def sample_parse_def
  sample_json_text_def sample_untyped_text_def update_fails_env_def
  sample_intents_def sample_config_p0_def sample_heap_p0_def sample_reads_def
  checkin_text_def sample_parse_p0_def sample_env_p0_def
  night_body_def blank_body_def initial_heap_def initial_config_def initial_config_p0_def
  hour_at_utc9_def rollback_fails_env_def no_connection_env_def zero_time_body_def
  flagged_text_def flagged_parse_def flagged_env_def

lemmas handler_defs =
  sms_webhook_def webhook_try_def record_inbound_def persist_outcome_def send_reply_def
  enqueue_followup_def runOrchestratorLLM_def orchestrator_try_def raw_output_def
  select_history_def
  parseSmsProviderPayload_def str_or_def getGuestState_def view_def db_write_def
  tx_begin_def tx_commit_def tx_rollback_def
  insert_message_def insert_followup_def in_row_def out_row_def update_in_def next_id_def
  or_null_def trim_def is_white_space_def js_def or_else_def to_boolean_def Let_def

lemmas handler_p0_defs =
  sms_webhook_p0_def webhook_try_p0_def persist_p0_def decide_reply_def isComplaint_def
  buildComplaintAutoReply_def buildNightDeferReply_def retrieveKnowledge_def
  generateReplyWithLLM_def classifyIntent_def classify_try_def current_def
  parseSmsProviderPayload_def str_or_def getGuestState_def view_def db_write_def
  insert_message_def insert_followup_def in_row_def out_row_p0_def update_in_p0_def next_id_def
  isNightTime_def trim_def is_white_space_def js_def or_else_def to_boolean_def Let_def

lemma sample_run:
  "fst (sms_webhook sample_env sample_body sample_world)
     = Json_ok \<lparr>incoming_id = 3, outgoing_id = Some 4, ok_intent = JString (js ''GENERIC''),
                ok_flow_type = JNull, ok_end_flow = False\<rparr>"
  by (simp add: handler_defs sample_defs)

lemma update_fails_run:
  "fst (sms_webhook update_fails_env sample_body sample_world)
     = Json_error 500 (js ''internal_server_error'')"
  by (simp add: handler_defs sample_defs)

lemma sample_run_p0:
  "fst (sms_webhook_p0 sample_env_p0 sample_body (sample_world, sample_heap_p0))
     = Json_ok_p0 \<lparr>incoming_id_p0 = 3, outgoing_id_p0 = 4, ok_intent_p0 = JString (js ''CHECKIN''),
              ok_guest_state = js ''UNKNOWN'', ok_night = False, ok_need_followup = False\<rparr>"
  by (simp add: handler_p0_defs sample_defs)

section \<open>The transaction of the webhook handler\<close>




section \<open>No complaint mode and no night deferral in server.js\<close>







section \<open>The result of the orchestrator\<close>

text \<open>
  C4, as amended. \<open>runOrchestratorLLM\<close> always returns a result. It returns the fallback
  when the call of the model fails, when \<open>raw\<close> does not parse (\<open>raw\<close> is the trimmed content,
  or \<open>"{}"\<close> when the content is absent or empty after trimming), and when it parses to
  \<open>null\<close>, a boolean, a number or a string. When it parses to an object, \<open>reply_text\<close>,
  \<open>intent\<close>, \<open>flow_type\<close> and \<open>slots\<close> are the parsed value if that value is truthy, whatever
  its type, and otherwise the default (\<open>""\<close>, \<open>"GENERIC"\<close>, \<open>null\<close>, \<open>{}\<close>); \<open>need_followup\<close> and
  \<open>end_flow\<close> are the truthiness of the parsed value, false when absent. An array has none
  of the six fields and gives the six defaults.
\<close>

theorem orchestrator_normalises:
  "\<exists>r. runOrchestratorLLM model parse txt g h k = Inr r \<and>
     (model (trim (buildOrchestratorUserPrompt txt g h k)) = Rejected \<longrightarrow> r = ORCH_FALLBACK) \<and>
     (\<forall>c. model (trim (buildOrchestratorUserPrompt txt g h k)) = Content c \<longrightarrow>
        (case parse (raw_output c) of
           None \<Rightarrow> r = ORCH_FALLBACK
         | Some (JObject kvs) \<Rightarrow>
             reply_text r = or_else (map_of kvs (js ''reply_text'')) (JString []) \<and>
             intent r = or_else (map_of kvs (js ''intent'')) (JString (js ''GENERIC'')) \<and>
             flow_type r = or_else (map_of kvs (js ''flow_type'')) JNull \<and>
             slots r = or_else (map_of kvs (js ''slots'')) (JObject []) \<and>
             need_followup r = to_boolean (map_of kvs (js ''need_followup'')) \<and>
             end_flow r = to_boolean (map_of kvs (js ''end_flow''))
         | Some (JArray xs) \<Rightarrow>
             r = \<lparr>reply_text = JString [], intent = JString (js ''GENERIC''), flow_type = JNull,
                  slots = JObject [], need_followup = False, end_flow = False\<rparr>
         | Some v \<Rightarrow> r = ORCH_FALLBACK))
     \<and> (\<forall>d. or_else None d = d)
     \<and> (\<forall>x d. or_else (Some x) d = (if truthy x then x else d))
     \<and> to_boolean None = False \<and> (\<forall>x. to_boolean (Some x) = truthy x)"
proof (cases "model (trim (buildOrchestratorUserPrompt txt g h k))")
  case Rejected
  then show ?thesis
    by (simp add: runOrchestratorLLM_def orchestrator_try_def or_else_def to_boolean_def)
next
  case (Content c)
  show ?thesis
  proof (cases "parse (raw_output c)")
    case None
    with Content show ?thesis
      by (simp add: runOrchestratorLLM_def orchestrator_try_def or_else_def to_boolean_def)
  next
    case (Some v)
    with Content show ?thesis
      by (cases v)
         (simp_all add: runOrchestratorLLM_def orchestrator_try_def or_else_def to_boolean_def)
  qed
qed

text \<open>
  C4 as stated fails on two inputs. An empty content is not parseable, yet the result is
  not the fallback: \<open>raw\<close> becomes \<open>"{}"\<close> and the result has an empty reply and
  \<open>need_followup\<close> false. And for the content \<open>{"reply_text":7,"flow_type":5}\<close> the numbers
  are kept: \<open>reply_text\<close> is not coerced to a string nor \<open>flow_type\<close> to \<open>null\<close>.
\<close>

theorem orchestrator_counterexample:
  "sample_parse [] = None
   \<and> runOrchestratorLLM (\<lambda>prompt. Content (Some [])) sample_parse (js ''party?'') (js ''UNKNOWN'') [] []
       = Inr \<lparr>reply_text = JString [], intent = JString (js ''GENERIC''), flow_type = JNull,
              slots = JObject [], need_followup = False, end_flow = False\<rparr>
   \<and> runOrchestratorLLM (\<lambda>prompt. Content (Some sample_untyped_text)) sample_parse
         (js ''party?'') (js ''UNKNOWN'') [] []
       = Inr \<lparr>reply_text = JNumber 7, intent = JString (js ''GENERIC''), flow_type = JNumber 5,
              slots = JObject [], need_followup = False, end_flow = False\<rparr>"
  by (simp add: runOrchestratorLLM_def orchestrator_try_def raw_output_def sample_parse_def
        sample_json_text_def sample_untyped_text_def trim_def is_white_space_def js_def
        or_else_def to_boolean_def Let_def)

text \<open>The amended C4 on the sample completion.\<close>

theorem orchestrator_normalises_witness:
  "\<exists>r. runOrchestratorLLM (\<lambda>prompt. Content (Some sample_json_text)) sample_parse
          (js ''party?'') (js ''UNKNOWN'') [] [] = Inr r \<and>
       sample_parse (raw_output (Some sample_json_text))
         = Some (JObject [(js ''reply_text'', JString (js ''ok'')), (js ''need_followup'', JBool True)]) \<and>
       reply_text r = JString (js ''ok'') \<and> intent r = JString (js ''GENERIC'') \<and>
       flow_type r = JNull \<and> slots r = JObject [] \<and> need_followup r \<and> \<not> end_flow r"
proof -
  have raw: "raw_output (Some sample_json_text) = sample_json_text"
    by (simp add: raw_output_def trim_def is_white_space_def sample_json_text_def js_def)
  have p: "sample_parse sample_json_text
         = Some (JObject [(js ''reply_text'', JString (js ''ok'')), (js ''need_followup'', JBool True)])"
    by (simp add: sample_parse_def)
  from orchestrator_normalises [of "\<lambda>prompt. Content (Some sample_json_text)" sample_parse
         "js ''party?''" "js ''UNKNOWN''" "[]" "[]"]
  obtain r where r: "runOrchestratorLLM (\<lambda>prompt. Content (Some sample_json_text)) sample_parse
          (js ''party?'') (js ''UNKNOWN'') [] [] = Inr r"
     "case sample_parse (raw_output (Some sample_json_text)) of
           None \<Rightarrow> r = ORCH_FALLBACK
         | Some (JObject kvs) \<Rightarrow>
             reply_text r = or_else (map_of kvs (js ''reply_text'')) (JString []) \<and>
             intent r = or_else (map_of kvs (js ''intent'')) (JString (js ''GENERIC'')) \<and>
             flow_type r = or_else (map_of kvs (js ''flow_type'')) JNull \<and>
             slots r = or_else (map_of kvs (js ''slots'')) (JObject []) \<and>
             need_followup r = to_boolean (map_of kvs (js ''need_followup'')) \<and>
             end_flow r = to_boolean (map_of kvs (js ''end_flow''))
         | Some (JArray xs) \<Rightarrow>
             r = \<lparr>reply_text = JString [], intent = JString (js ''GENERIC''), flow_type = JNull,
                  slots = JObject [], need_followup = False, end_flow = False\<rparr>
         | Some v \<Rightarrow> r = ORCH_FALLBACK"
    by blast
  from r(2) have "reply_text r = JString (js ''ok'') \<and> intent r = JString (js ''GENERIC'') \<and>
       flow_type r = JNull \<and> slots r = JObject [] \<and> need_followup r \<and> \<not> end_flow r"
    unfolding raw p by (simp add: or_else_def to_boolean_def js_def)
  with r(1) raw p show ?thesis by auto
qed

section \<open>The rows of one exchange\<close>

text \<open>
  C5. For a request that either handler answers with 200, the IN row of the request and
  its OUT row (every row the request added) have \<open>need_followup\<close> set to one boolean and
  \<open>resolved\<close> set to its negation.
\<close>

theorem resolved_negates_need_followup:
  "(sms_webhook e b w = (Json_ok ok, w') \<and> pending w = None \<longrightarrow>
      (\<exists>nf inr outs.
         messages (durable w') = messages (durable w) @ inr # outs \<and>
         msg_id inr = incoming_id ok \<and> msg_direction inr = IN \<and>
         msg_need_followup inr = Some nf \<and> msg_resolved inr = Some (\<not> nf) \<and>
         (\<forall>out \<in> set outs. msg_direction out = OUT \<and>
             msg_need_followup out = Some nf \<and> msg_resolved out = Some (\<not> nf))))
   \<and> (sms_webhook_p0 e0 b0 (v, h) = (Json_ok_p0 ok0, v', h') \<and> pending v = None \<longrightarrow>
      (\<exists>nf inr out.
         messages (durable v') = messages (durable v) @ [inr, out] \<and>
         msg_id inr = incoming_id_p0 ok0 \<and> msg_direction inr = IN \<and>
         msg_need_followup inr = Some nf \<and> msg_resolved inr = Some (\<not> nf) \<and>
         msg_direction out = OUT \<and>
         msg_need_followup out = Some nf \<and> msg_resolved out = Some (\<not> nf)))"
proof (intro conjI impI)
  assume "sms_webhook e b w = (Json_ok ok, w') \<and> pending w = None"
  then have "sms_webhook e b w = (Json_ok ok, w')" "pending w = None" by simp_all
  from sms_webhook_ok_effect [OF this] show
    "\<exists>nf inr outs.
         messages (durable w') = messages (durable w) @ inr # outs \<and>
         msg_id inr = incoming_id ok \<and> msg_direction inr = IN \<and>
         msg_need_followup inr = Some nf \<and> msg_resolved inr = Some (\<not> nf) \<and>
         (\<forall>out \<in> set outs. msg_direction out = OUT \<and>
             msg_need_followup out = Some nf \<and> msg_resolved out = Some (\<not> nf))"
    by (fastforce simp: handled_in_row_def in_row_def out_row_def)
next
  assume "sms_webhook_p0 e0 b0 (v, h) = (Json_ok_p0 ok0, v', h') \<and> pending v = None"
  then have "sms_webhook_p0 e0 b0 (v, h) = (Json_ok_p0 ok0, v', h')" "pending v = None" by simp_all
  from sms_webhook_p0_ok_effect [OF this] show
    "\<exists>nf inr out.
         messages (durable v') = messages (durable v) @ [inr, out] \<and>
         msg_id inr = incoming_id_p0 ok0 \<and> msg_direction inr = IN \<and>
         msg_need_followup inr = Some nf \<and> msg_resolved inr = Some (\<not> nf) \<and>
         msg_direction out = OUT \<and>
         msg_need_followup out = Some nf \<and> msg_resolved out = Some (\<not> nf)"
    by (fastforce simp: handled_in_row_p0_def in_row_def out_row_p0_def)
qed

text \<open>C5 on the sample data, for both handlers.\<close>

theorem resolved_negates_need_followup_witness:
  "\<exists>ok w' ok0 v' h'.
     sms_webhook sample_env sample_body sample_world = (Json_ok ok, w') \<and>
     sms_webhook_p0 sample_env_p0 sample_body (sample_world, sample_heap_p0) = (Json_ok_p0 ok0, v', h') \<and>
     pending sample_world = None \<and>
     (\<exists>nf inr outs.
         messages (durable w') = messages sample_tables @ inr # outs \<and>
         msg_id inr = incoming_id ok \<and> msg_direction inr = IN \<and>
         msg_need_followup inr = Some nf \<and> msg_resolved inr = Some (\<not> nf) \<and>
         (\<forall>out \<in> set outs. msg_direction out = OUT \<and>
             msg_need_followup out = Some nf \<and> msg_resolved out = Some (\<not> nf))) \<and>
     (\<exists>nf inr out.
         messages (durable v') = messages sample_tables @ [inr, out] \<and>
         msg_id inr = incoming_id_p0 ok0 \<and> msg_direction inr = IN \<and>
         msg_need_followup inr = Some nf \<and> msg_resolved inr = Some (\<not> nf) \<and>
         msg_direction out = OUT \<and>
         msg_need_followup out = Some nf \<and> msg_resolved out = Some (\<not> nf))"
proof -
  define R where "R = sms_webhook sample_env sample_body sample_world"
  define Q where "Q = sms_webhook_p0 sample_env_p0 sample_body (sample_world, sample_heap_p0)"
  let ?ok = "\<lparr>incoming_id = 3, outgoing_id = Some 4, ok_intent = JString (js ''GENERIC''),
                ok_flow_type = JNull, ok_end_flow = False\<rparr>"
  let ?okp = "\<lparr>incoming_id_p0 = 3, outgoing_id_p0 = 4, ok_intent_p0 = JString (js ''CHECKIN''),
              ok_guest_state = js ''UNKNOWN'', ok_night = False, ok_need_followup = False\<rparr>"
  have run: "sms_webhook sample_env sample_body sample_world = (Json_ok ?ok, snd R)"
    using sample_run by (simp add: R_def prod_eq_iff)
  have run0: "sms_webhook_p0 sample_env_p0 sample_body (sample_world, sample_heap_p0)
       = (Json_ok_p0 ?okp, fst (snd Q), snd (snd Q))"
    using sample_run_p0 by (simp add: Q_def prod_eq_iff)
  have idle: "pending sample_world = None" by (simp add: sample_world_def)
  have d: "durable sample_world = sample_tables" by (simp add: sample_world_def)
  note inst = resolved_negates_need_followup [where e = sample_env and b = sample_body
         and w = sample_world and ok = ?ok and w' = "snd R" and ?e0.0 = sample_env_p0
         and ?b0.0 = sample_body and v = sample_world and h = sample_heap_p0 and ?ok0.0 = ?okp
         and v' = "fst (snd Q)" and h' = "snd (snd Q)", unfolded d]
  from inst run run0 idle show ?thesis
    by (intro exI [of _ ?ok] exI [of _ "snd R"] exI [of _ ?okp] exI [of _ "fst (snd Q)"]
          exI [of _ "snd (snd Q)"]) simp
qed

text \<open>
  C6. In \<open>server.js\<close>, on a client with no open transaction: if the handler answers 200,
  the IN row has \<open>need_followup\<close> set to a boolean, and the follow-up queue has gained one
  entry, with status \<open>PENDING\<close> and the identifier of the IN row, exactly when that boolean
  is true; with any other outcome both tables are as before the request. So the entry
  and the mark on the message appear together or not at all. In
  \<open>src/unnamed/part_000\<close> the same relation holds for every request answered with 200.
\<close>

theorem followup_entry_iff_need_followup:
  "(pending w = None \<and> sms_webhook e b w = (resp, w') \<longrightarrow>
      (\<forall>ok. resp = Json_ok ok \<longrightarrow>
         (\<exists>nf inr outs.
            messages (durable w') = messages (durable w) @ inr # outs \<and>
            msg_id inr = incoming_id ok \<and> msg_direction inr = IN \<and>
            msg_need_followup inr = Some nf \<and>
            followup_queue (durable w') = followup_queue (durable w)
              @ (if nf then [\<lparr>fu_message_id = incoming_id ok, fu_status = js ''PENDING'',
                              fu_reason = Some (js ''LLM_FLAGGED'')\<rparr>] else []))) \<and>
      ((\<forall>ok. resp \<noteq> Json_ok ok) \<longrightarrow> durable w' = durable w))
   \<and> (pending v = None \<and> sms_webhook_p0 e0 b0 (v, h) = (Json_ok_p0 ok0, v', h') \<longrightarrow>
      (\<exists>nf inr out reason.
         messages (durable v') = messages (durable v) @ [inr, out] \<and>
         msg_id inr = incoming_id_p0 ok0 \<and> msg_direction inr = IN \<and>
         msg_need_followup inr = Some nf \<and>
         followup_queue (durable v') = followup_queue (durable v)
           @ (if nf then [\<lparr>fu_message_id = incoming_id_p0 ok0, fu_status = js ''PENDING'',
                           fu_reason = reason\<rparr>] else [])))"
proof (intro conjI impI allI)
  fix ok
  assume a: "pending w = None \<and> sms_webhook e b w = (resp, w')" and r: "resp = Json_ok ok"
  then have "sms_webhook e b w = (Json_ok ok, w')" "pending w = None" by simp_all
  from sms_webhook_ok_effect [OF this] show
    "\<exists>nf inr outs.
            messages (durable w') = messages (durable w) @ inr # outs \<and>
            msg_id inr = incoming_id ok \<and> msg_direction inr = IN \<and>
            msg_need_followup inr = Some nf \<and>
            followup_queue (durable w') = followup_queue (durable w)
              @ (if nf then [\<lparr>fu_message_id = incoming_id ok, fu_status = js ''PENDING'',
                              fu_reason = Some (js ''LLM_FLAGGED'')\<rparr>] else [])"
    by (fastforce simp: handled_in_row_def in_row_def)
next
  assume "pending w = None \<and> sms_webhook e b w = (resp, w')" "\<forall>ok. resp \<noteq> Json_ok ok"
  then show "durable w' = durable w" using sms_webhook_not_ok_durable by blast
next
  assume "pending v = None \<and> sms_webhook_p0 e0 b0 (v, h) = (Json_ok_p0 ok0, v', h')"
  then have "sms_webhook_p0 e0 b0 (v, h) = (Json_ok_p0 ok0, v', h')" "pending v = None" by simp_all
  from sms_webhook_p0_ok_effect [OF this] show
    "\<exists>nf inr out reason.
         messages (durable v') = messages (durable v) @ [inr, out] \<and>
         msg_id inr = incoming_id_p0 ok0 \<and> msg_direction inr = IN \<and>
         msg_need_followup inr = Some nf \<and>
         followup_queue (durable v') = followup_queue (durable v)
           @ (if nf then [\<lparr>fu_message_id = incoming_id_p0 ok0, fu_status = js ''PENDING'',
                           fu_reason = reason\<rparr>] else [])"
    by (fastforce simp: handled_in_row_p0_def in_row_def)
qed

text \<open>C6 on the sample data: a handled request, a failed one, and the other handler.\<close>

theorem followup_entry_iff_need_followup_witness:
  "\<exists>ok w' ok0 v' h' u'.
     pending sample_world = None \<and>
     sms_webhook sample_env sample_body sample_world = (Json_ok ok, w') \<and>
     (\<exists>nf inr outs.
        messages (durable w') = messages sample_tables @ inr # outs \<and>
        msg_id inr = incoming_id ok \<and> msg_direction inr = IN \<and>
        msg_need_followup inr = Some nf \<and>
        followup_queue (durable w') = followup_queue sample_tables
          @ (if nf then [\<lparr>fu_message_id = incoming_id ok, fu_status = js ''PENDING'',
                          fu_reason = Some (js ''LLM_FLAGGED'')\<rparr>] else [])) \<and>
     sms_webhook update_fails_env sample_body sample_world
        = (Json_error 500 (js ''internal_server_error''), u') \<and>
     durable u' = sample_tables \<and>
     sms_webhook_p0 sample_env_p0 sample_body (sample_world, sample_heap_p0) = (Json_ok_p0 ok0, v', h') \<and>
     (\<exists>nf inr out reason.
         messages (durable v') = messages sample_tables @ [inr, out] \<and>
         msg_id inr = incoming_id_p0 ok0 \<and> msg_direction inr = IN \<and>
         msg_need_followup inr = Some nf \<and>
         followup_queue (durable v') = followup_queue sample_tables
           @ (if nf then [\<lparr>fu_message_id = incoming_id_p0 ok0, fu_status = js ''PENDING'',
                           fu_reason = reason\<rparr>] else []))"
proof -
  define R where "R = sms_webhook sample_env sample_body sample_world"
  define U where "U = sms_webhook update_fails_env sample_body sample_world"
  define Q where "Q = sms_webhook_p0 sample_env_p0 sample_body (sample_world, sample_heap_p0)"
  let ?ok = "\<lparr>incoming_id = 3, outgoing_id = Some 4, ok_intent = JString (js ''GENERIC''),
                ok_flow_type = JNull, ok_end_flow = False\<rparr>"
  let ?okp = "\<lparr>incoming_id_p0 = 3, outgoing_id_p0 = 4, ok_intent_p0 = JString (js ''CHECKIN''),
              ok_guest_state = js ''UNKNOWN'', ok_night = False, ok_need_followup = False\<rparr>"
  have run: "sms_webhook sample_env sample_body sample_world = (Json_ok ?ok, snd R)"
    using sample_run by (simp add: R_def prod_eq_iff)
  have runU: "sms_webhook update_fails_env sample_body sample_world
       = (Json_error 500 (js ''internal_server_error''), snd U)"
    using update_fails_run by (simp add: U_def prod_eq_iff)
  have run0: "sms_webhook_p0 sample_env_p0 sample_body (sample_world, sample_heap_p0)
       = (Json_ok_p0 ?okp, fst (snd Q), snd (snd Q))"
    using sample_run_p0 by (simp add: Q_def prod_eq_iff)
  have idle: "pending sample_world = None" and d: "durable sample_world = sample_tables"
    by (simp_all add: sample_world_def)
  note inst = followup_entry_iff_need_followup [where e = sample_env and b = sample_body
         and w = sample_world and resp = "Json_ok ?ok" and w' = "snd R" and ?e0.0 = sample_env_p0
         and ?b0.0 = sample_body and v = sample_world and h = sample_heap_p0 and ?ok0.0 = ?okp
         and v' = "fst (snd Q)" and h' = "snd (snd Q)", unfolded d]
  note instU = followup_entry_iff_need_followup [where e = update_fails_env and b = sample_body
         and w = sample_world and resp = "Json_error 500 (js ''internal_server_error'')"
         and w' = "snd U" and ?e0.0 = sample_env_p0
         and ?b0.0 = sample_body and v = sample_world and h = sample_heap_p0 and ?ok0.0 = ?okp
         and v' = "fst (snd Q)" and h' = "snd (snd Q)", unfolded d]
  from instU runU idle have u: "durable (snd U) = sample_tables" by simp
  from inst run run0 runU idle u show ?thesis
    by (intro exI [of _ ?ok] exI [of _ "snd R"] exI [of _ ?okp] exI [of _ "fst (snd Q)"]
          exI [of _ "snd (snd Q)"] exI [of _ "snd U"]) simp
qed

text \<open>
  C7. In \<open>server.js\<close>, a request answered with 200 on a client with no open transaction has
  added to \<open>messages\<close> one IN row, with a fresh identifier, the sender and the text of the
  request, and then either nothing or one OUT row. The OUT row holds the reply that was
  sent, which is not empty after trimming, and its \<open>reply_to_id\<close> is the identifier of the IN
  row.
\<close>

theorem one_in_row_at_most_one_out_row:
  assumes run: "sms_webhook e b w = (Json_ok ok, w')" and idle: "pending w = None"
  shows "\<exists>frm txt inr outs.
     p_from (parseSmsProviderPayload (now e) b) = Some frm \<and>
     p_text (parseSmsProviderPayload (now e) b) = Some txt \<and>
     messages (durable w') = messages (durable w) @ inr # outs \<and>
     msg_direction inr = IN \<and> msg_id inr = incoming_id ok \<and>
     msg_phone_number inr = frm \<and> msg_text inr = Some txt \<and>
     (\<forall>m \<in> set (messages (durable w)). msg_id m \<noteq> incoming_id ok) \<and>
     (outs = [] \<and> outgoing_id ok = None
      \<or> (\<exists>out s. outs = [out] \<and> outgoing_id ok = Some (msg_id out) \<and>
            msg_direction out = OUT \<and> msg_phone_number out = frm \<and>
            msg_text out = Some s \<and> trim s \<noteq> [] \<and>
            msg_reply_to_id out = Some (incoming_id ok) \<and>
            outbox w' = outbox w @ [(frm, Some s)]))"
proof -
  have fresh: "\<forall>m \<in> set (messages (durable w)). msg_id m \<noteq> next_id (messages (durable w))"
    using next_id_fresh by fastforce
  from sms_webhook_ok_effect [OF run idle] fresh show ?thesis
    by (fastforce simp: handled_in_row_def in_row_def out_row_def)
qed

text \<open>C7 on the sample data.\<close>

theorem one_in_row_at_most_one_out_row_witness:
  "\<exists>ok w'.
     sms_webhook sample_env sample_body sample_world = (Json_ok ok, w') \<and>
     pending sample_world = None \<and>
     (\<exists>frm txt inr outs.
       p_from (parseSmsProviderPayload (now sample_env) sample_body) = Some frm \<and>
       p_text (parseSmsProviderPayload (now sample_env) sample_body) = Some txt \<and>
       messages (durable w') = messages sample_tables @ inr # outs \<and>
       msg_direction inr = IN \<and> msg_id inr = incoming_id ok \<and>
       msg_phone_number inr = frm \<and> msg_text inr = Some txt \<and>
       (\<forall>m \<in> set (messages sample_tables). msg_id m \<noteq> incoming_id ok) \<and>
       (outs = [] \<and> outgoing_id ok = None
        \<or> (\<exists>out s. outs = [out] \<and> outgoing_id ok = Some (msg_id out) \<and>
              msg_direction out = OUT \<and> msg_phone_number out = frm \<and>
              msg_text out = Some s \<and> trim s \<noteq> [] \<and>
              msg_reply_to_id out = Some (incoming_id ok) \<and>
              outbox w' = outbox sample_world @ [(frm, Some s)])))"
proof -
  define R where "R = sms_webhook sample_env sample_body sample_world"
  let ?ok = "\<lparr>incoming_id = 3, outgoing_id = Some 4, ok_intent = JString (js ''GENERIC''),
                ok_flow_type = JNull, ok_end_flow = False\<rparr>"
  have run: "sms_webhook sample_env sample_body sample_world = (Json_ok ?ok, snd R)"
    using sample_run by (simp add: R_def prod_eq_iff)
  have idle: "pending sample_world = None" and d: "durable sample_world = sample_tables"
    by (simp_all add: sample_world_def)
  from one_in_row_at_most_one_out_row [OF run idle, unfolded d] run idle show ?thesis
    by (intro exI [of _ ?ok] exI [of _ "snd R"]) simp
qed

section \<open>Validation\<close>




section \<open>Reloading the config\<close>

text \<open>
  C9. In both versions, when \<open>pool.connect()\<close> or one of the queries of \<open>loadConfig\<close> fails,
  \<open>loadConfig\<close> throws and the heap is unchanged: \<open>cachedConfig\<close> still refers to the
  previous snapshot. In \<open>server.js\<close> the same holds when the queries succeed and a template
  row has an \<open>intent_name\<close> that \<open>Object.prototype\<close> has a property for: the grouping loop
  throws a TypeError before the assignment. In every other case \<open>cachedConfig\<close> refers to a
  new object, every object that existed before is unchanged, and the new object is
  built from the rows read and the clock alone; its templates have the intent names of
  the rows as their keys.
\<close>

theorem loadConfig_replaces_snapshot_wholesale:
  "(pool_connect_fails rd \<or> intentsRes rd = None \<or> settingsRes rd = None \<or> tmplRes rd = None \<longrightarrow>
      loadConfig rd t h = (Inl DbError, h))
   \<and> (\<not> pool_connect_fails rd \<and> intentsRes rd = Some irows \<and> settingsRes rd = Some srows \<and>
      tmplRes rd = Some trows \<and>
      (\<exists>row \<in> set trows. tr_intent_name row \<in> set Object_prototype_keys) \<longrightarrow>
      loadConfig rd t h = (Inl TypeError, h))
   \<and> (\<not> pool_connect_fails rd \<and> intentsRes rd = Some irows \<and> settingsRes rd = Some srows \<and>
      tmplRes rd = Some trows \<and>
      (\<forall>row \<in> set trows. tr_intent_name row \<notin> set Object_prototype_keys) \<longrightarrow>
      (\<exists>h' tm. loadConfig rd t h = (Inr (), h') \<and> group_templates trows [] = Inr tm \<and>
         fst ` set tm = tr_intent_name ` set trows \<and>
         cachedConfig h' = allocated h \<and> allocated h' = Suc (allocated h) \<and>
         (\<forall>a. a \<noteq> allocated h \<longrightarrow> objects h' a = objects h a) \<and>
         current h' = \<lparr>intents = irows, actionIntentNames = map intent_name (filter is_action irows),
                        lastLoadedAt = Some t, templates = tm\<rparr>))
   \<and> (pool_connect_fails rd \<or> intentsRes rd = None \<or> settingsRes rd = None \<longrightarrow>
      loadConfig_p0 rd t h0 = (Inl DbError, h0))
   \<and> (\<not> pool_connect_fails rd \<and> intentsRes rd = Some irows \<and> settingsRes rd = Some srows \<longrightarrow>
      (\<exists>h'. loadConfig_p0 rd t h0 = (Inr (), h') \<and>
         cachedConfig h' = allocated h0 \<and> allocated h' = Suc (allocated h0) \<and>
         (\<forall>a. a \<noteq> allocated h0 \<longrightarrow> objects h' a = objects h0 a) \<and>
         current h' = \<lparr>intents = irows, actionIntentNames = map intent_name (filter is_action irows),
                        lastLoadedAt = Some t,
                        nightDeferReply = Some (setting_or (build_settings srows)
                                                  (js ''night_defer_reply'') DEFAULT_NIGHT_DEFER_REPLY),
                        complaintReply = Some (setting_or (build_settings srows)
                                                  (js ''complaint_reply'') DEFAULT_COMPLAINT_REPLY)\<rparr>))"
proof (intro conjI impI)
  assume "pool_connect_fails rd \<or> intentsRes rd = None \<or> settingsRes rd = None \<or> tmplRes rd = None"
  then show "loadConfig rd t h = (Inl DbError, h)"
    by (auto simp: loadConfig_def Let_def split: option.splits)
next
  assume a: "\<not> pool_connect_fails rd \<and> intentsRes rd = Some irows \<and> settingsRes rd = Some srows \<and>
      tmplRes rd = Some trows \<and>
      (\<exists>row \<in> set trows. tr_intent_name row \<in> set Object_prototype_keys)"
  then have "group_templates trows [] = Inl TypeError"
    using group_templates_throws [of trows "[]"] by simp
  with a show "loadConfig rd t h = (Inl TypeError, h)"
    by (simp add: loadConfig_def Let_def)
next
  assume a: "\<not> pool_connect_fails rd \<and> intentsRes rd = Some irows \<and> settingsRes rd = Some srows \<and>
      tmplRes rd = Some trows \<and>
      (\<forall>row \<in> set trows. tr_intent_name row \<notin> set Object_prototype_keys)"
  then obtain tm where tm: "group_templates trows [] = Inr tm"
      "fst ` set tm = tr_intent_name ` set trows"
    using group_templates_returns [of trows "[]"] by auto
  with a show "\<exists>h' tm. loadConfig rd t h = (Inr (), h') \<and> group_templates trows [] = Inr tm \<and>
         fst ` set tm = tr_intent_name ` set trows \<and>
         cachedConfig h' = allocated h \<and> allocated h' = Suc (allocated h) \<and>
         (\<forall>a. a \<noteq> allocated h \<longrightarrow> objects h' a = objects h a) \<and>
         current h' = \<lparr>intents = irows, actionIntentNames = map intent_name (filter is_action irows),
                        lastLoadedAt = Some t, templates = tm\<rparr>"
    by (simp add: loadConfig_def Let_def assign_new_def current_def)
next
  assume "pool_connect_fails rd \<or> intentsRes rd = None \<or> settingsRes rd = None"
  then show "loadConfig_p0 rd t h0 = (Inl DbError, h0)"
    by (auto simp: loadConfig_p0_def Let_def split: option.splits)
next
  assume "\<not> pool_connect_fails rd \<and> intentsRes rd = Some irows \<and> settingsRes rd = Some srows"
  then show "\<exists>h'. loadConfig_p0 rd t h0 = (Inr (), h') \<and>
         cachedConfig h' = allocated h0 \<and> allocated h' = Suc (allocated h0) \<and>
         (\<forall>a. a \<noteq> allocated h0 \<longrightarrow> objects h' a = objects h0 a) \<and>
         current h' = \<lparr>intents = irows, actionIntentNames = map intent_name (filter is_action irows),
                        lastLoadedAt = Some t,
                        nightDeferReply = Some (setting_or (build_settings srows)
                                                  (js ''night_defer_reply'') DEFAULT_NIGHT_DEFER_REPLY),
                        complaintReply = Some (setting_or (build_settings srows)
                                                  (js ''complaint_reply'') DEFAULT_COMPLAINT_REPLY)\<rparr>"
    by (simp add: loadConfig_p0_def Let_def assign_new_def current_def)
qed

text \<open>
  C9 on the sample rows: a failing settings query, a template row named \<open>constructor\<close>
  after three good ones, and a successful load in each version.
\<close>

theorem loadConfig_replaces_snapshot_wholesale_witness:
  "loadConfig (sample_reads\<lparr>settingsRes := None\<rparr>) 1764741600000 (initial_heap initial_config)
     = (Inl DbError, initial_heap initial_config) \<and>
   loadConfig_p0 (sample_reads\<lparr>settingsRes := None\<rparr>) 1764741600000 (initial_heap initial_config_p0)
     = (Inl DbError, initial_heap initial_config_p0) \<and>
   loadConfig (sample_reads\<lparr>tmplRes := Some (sample_templates @ [inherited_name_row])\<rparr>)
       1764741600000 (initial_heap initial_config)
     = (Inl TypeError, initial_heap initial_config) \<and>
   (\<exists>h'. loadConfig (sample_reads\<lparr>tmplRes := Some sample_templates\<rparr>) 1764741600000
            (initial_heap initial_config) = (Inr (), h') \<and>
         cachedConfig h' = 1 \<and> objects h' 0 = initial_config \<and>
         current h' = \<lparr>intents = sample_intents, actionIntentNames = [js ''CHECKIN''],
                        lastLoadedAt = Some 1764741600000,
                        templates =
                          [(js ''CHECKIN'',
                            [\<lparr>sub_intent = Some (js ''EARLY''), label = Some (js ''early''),
                              message_text = Some (js ''from 3 pm'')\<rparr>,
                             \<lparr>sub_intent = Some (js ''LATE''), label = Some (js ''late''),
                              message_text = Some (js ''until 10 pm'')\<rparr>]),
                           (js ''PARKING'',
                            [\<lparr>sub_intent = None, label = None,
                              message_text = Some (js ''behind the house'')\<rparr>])]\<rparr>) \<and>
   (\<exists>h'. loadConfig_p0 sample_reads 1764741600000 (initial_heap initial_config_p0) = (Inr (), h') \<and>
         cachedConfig h' = 1 \<and> objects h' 0 = initial_config_p0 \<and>
         current h' = \<lparr>intents = sample_intents, actionIntentNames = [js ''CHECKIN''],
                        lastLoadedAt = Some 1764741600000,
                        nightDeferReply = Some DEFAULT_NIGHT_DEFER_REPLY,
                        complaintReply = Some (js ''Sorry.'')\<rparr>)"
proof -
  let ?bad = "sample_reads\<lparr>settingsRes := None\<rparr>"
  let ?thrown = "sample_reads\<lparr>tmplRes := Some (sample_templates @ [inherited_name_row])\<rparr>"
  let ?good = "sample_reads\<lparr>tmplRes := Some sample_templates\<rparr>"
  let ?srows = "[(js ''complaint_reply'', Some (js ''Sorry.''))]"
  let ?tm = "[(js ''CHECKIN'',
                [\<lparr>sub_intent = Some (js ''EARLY''), label = Some (js ''early''),
                  message_text = Some (js ''from 3 pm'')\<rparr>,
                 \<lparr>sub_intent = Some (js ''LATE''), label = Some (js ''late''),
                  message_text = Some (js ''until 10 pm'')\<rparr>]),
               (js ''PARKING'',
                [\<lparr>sub_intent = None, label = None,
                  message_text = Some (js ''behind the house'')\<rparr>])]"
  have b: "settingsRes ?bad = None" by simp
  have g: "\<not> pool_connect_fails sample_reads" "intentsRes sample_reads = Some sample_intents"
    "settingsRes sample_reads = Some ?srows" "tmplRes sample_reads = Some []"
    by (simp_all add: sample_reads_def)
  have g2: "\<not> pool_connect_fails ?good" "intentsRes ?good = Some sample_intents"
    "settingsRes ?good = Some ?srows" "tmplRes ?good = Some sample_templates"
    "\<not> pool_connect_fails ?thrown" "intentsRes ?thrown = Some sample_intents"
    "settingsRes ?thrown = Some ?srows"
    "tmplRes ?thrown = Some (sample_templates @ [inherited_name_row])"
    by (simp_all add: sample_reads_def)
  have inh: "\<exists>row \<in> set (sample_templates @ [inherited_name_row]).
      tr_intent_name row \<in> set Object_prototype_keys"
    by (simp add: inherited_name_row_def Object_prototype_keys_def)
  have own: "\<forall>row \<in> set sample_templates. tr_intent_name row \<notin> set Object_prototype_keys"
    unfolding sample_templates_def Object_prototype_keys_def by (simp add: js_def)
  have grp: "group_templates sample_templates [] = Inr ?tm"
    unfolding sample_templates_def Object_prototype_keys_def by (simp add: js_def Object_prototype_keys_def)
  have names: "map intent_name (filter is_action sample_intents) = [js ''CHECKIN'']"
    by (simp add: sample_intents_def)
  have st: "setting_or (build_settings ?srows)
              (js ''night_defer_reply'') DEFAULT_NIGHT_DEFER_REPLY = DEFAULT_NIGHT_DEFER_REPLY"
    "setting_or (build_settings ?srows)
              (js ''complaint_reply'') DEFAULT_COMPLAINT_REPLY = js ''Sorry.''"
    by (simp_all add: setting_or_def build_settings_def js_def)
  have a0: "allocated (initial_heap c) = 1" "objects (initial_heap c) 0 = c" for c :: 'c
    by (simp_all add: initial_heap_def)
  note bad = loadConfig_replaces_snapshot_wholesale [where rd = ?bad and t = 1764741600000
      and h = "initial_heap initial_config" and ?h0.0 = "initial_heap initial_config_p0"
      and irows = sample_intents and srows = "[]" and trows = "[]"]
  note thrown = loadConfig_replaces_snapshot_wholesale [where rd = ?thrown and t = 1764741600000
      and h = "initial_heap initial_config" and ?h0.0 = "initial_heap initial_config_p0"
      and irows = sample_intents and srows = ?srows
      and trows = "sample_templates @ [inherited_name_row]"]
  note good = loadConfig_replaces_snapshot_wholesale [where rd = ?good and t = 1764741600000
      and h = "initial_heap initial_config" and ?h0.0 = "initial_heap initial_config_p0"
      and irows = sample_intents and srows = ?srows and trows = sample_templates,
      unfolded names st a0]
  note good0 = loadConfig_replaces_snapshot_wholesale [where rd = sample_reads and t = 1764741600000
      and h = "initial_heap initial_config" and ?h0.0 = "initial_heap initial_config_p0"
      and irows = sample_intents and srows = ?srows and trows = "[]",
      unfolded names st a0]
  from bad b have f: "loadConfig ?bad 1764741600000 (initial_heap initial_config)
     = (Inl DbError, initial_heap initial_config)"
    "loadConfig_p0 ?bad 1764741600000 (initial_heap initial_config_p0)
     = (Inl DbError, initial_heap initial_config_p0)"
    by simp_all
  from thrown g2 inh have t: "loadConfig ?thrown 1764741600000 (initial_heap initial_config)
     = (Inl TypeError, initial_heap initial_config)"
    by blast
  from good g2 own grp have s1: "\<exists>h'. loadConfig ?good 1764741600000
            (initial_heap initial_config) = (Inr (), h') \<and>
         cachedConfig h' = 1 \<and> objects h' 0 = initial_config \<and>
         current h' = \<lparr>intents = sample_intents, actionIntentNames = [js ''CHECKIN''],
                        lastLoadedAt = Some 1764741600000, templates = ?tm\<rparr>"
    by (auto simp: a0)
  from good0 g have s2: "\<exists>h'. loadConfig_p0 sample_reads 1764741600000 (initial_heap initial_config_p0) = (Inr (), h') \<and>
         cachedConfig h' = 1 \<and> objects h' 0 = initial_config_p0 \<and>
         current h' = \<lparr>intents = sample_intents, actionIntentNames = [js ''CHECKIN''],
                        lastLoadedAt = Some 1764741600000,
                        nightDeferReply = Some DEFAULT_NIGHT_DEFER_REPLY,
                        complaintReply = Some (js ''Sorry.'')\<rparr>"
    by (auto simp: a0)
  from f t s1 s2 show ?thesis by blast
qed

section \<open>The history given to the orchestrator\<close>

text \<open>
  C10. In \<open>server.js\<close>, when steps 1 to 3 succeed, the history is made of the last ten (or
  fewer) rows of the sender in the order of their identifiers, the new IN row included. It
  is not empty, its last entry is the text just received with direction \<open>IN\<close>, and the
  prompt has that text twice: after the heading of the latest message, and as the last
  line \<open>[IN] text\<close> of the history. The handler gives the model that prompt.
\<close>

theorem history_ends_with_inbound_message:
  assumes pf: "p_from (parseSmsProviderPayload (now e) b) = Some frm"
      "p_text (parseSmsProviderPayload (now e) b) = Some txt" "frm \<noteq> []" "txt \<noteq> []"
    and idle: "pending w = None"
    and ri: "record_inbound e frm txt (p_receivedAt (parseSmsProviderPayload (now e) b)) w
               = (Inr (i, history, kb), w1)"
  shows "history = map (\<lambda>m. (msg_direction m, msg_text m))
           (rev (take 10 (rev (sort_key msg_id (filter (\<lambda>m. msg_phone_number m = frm)
              (messages (durable w)
                 @ [in_row i frm txt (p_receivedAt (parseSmsProviderPayload (now e) b))]))))))
     \<and> length history \<le> 10 \<and> history \<noteq> [] \<and> last history = (IN, Some txt)
     \<and> (\<exists>pre. buildOrchestratorUserPrompt txt (js ''UNKNOWN'') history kb
           = prompt_latest @ txt @ prompt_history @ pre @ js ''[IN] '' @ txt @ prompt_guest
             @ js ''UNKNOWN'' @ prompt_knowledge
             @ (if join [10, 10] (map knowledge_block kb) \<noteq> []
                then join [10, 10] (map knowledge_block kb) else NO_KNOWLEDGE)
             @ prompt_task)
     \<and> webhook_try e b w
         = (case orchestrator_try (JSON_parse e)
                  (llm e (trim (buildOrchestratorUserPrompt txt (js ''UNKNOWN'') history kb))) of
              Inl err \<Rightarrow> persist_outcome e frm (js ''UNKNOWN'') i ORCH_FALLBACK w1
            | Inr r \<Rightarrow> persist_outcome e frm (js ''UNKNOWN'') i r w1)"
proof -
  let ?recv = "p_receivedAt (parseSmsProviderPayload (now e) b)"
  let ?ms = "messages (durable w)"
  let ?inr = "in_row i frm txt ?recv"
  let ?S = "sort_key msg_id (filter (\<lambda>m. msg_phone_number m = frm) ?ms)"
  let ?proj = "\<lambda>m. (msg_direction m, msg_text m)"
  from record_inbound_exact [OF ri idle] have i: "i = next_id ?ms"
    and h0: "history = map ?proj (rev (select_history frm (insert_message ?inr (durable w))))"
    by simp_all
  have h1: "history = map ?proj (rev (take 10 (rev (sort_key msg_id
              (filter (\<lambda>m. msg_phone_number m = frm) (?ms @ [?inr]))))))"
    unfolding h0 by (simp add: select_history_def insert_simps)
  have S: "sort_key msg_id (filter (\<lambda>m. msg_phone_number m = frm) (?ms @ [?inr])) = ?S @ [?inr]"
    by (rule history_of_sender [OF i])
  have h2: "history = map ?proj (drop (length (?S @ [?inr]) - 10) (?S @ [?inr]))"
    unfolding h1 S rev_take_rev ..
  have len: "length history \<le> 10" unfolding h2 by simp
  have ne: "drop (length (?S @ [?inr]) - 10) (?S @ [?inr]) \<noteq> []" by simp
  then have hne: "history \<noteq> []" unfolding h2 by simp
  have "last history = ?proj (last (drop (length (?S @ [?inr]) - 10) (?S @ [?inr])))"
    unfolding h2 using ne by (rule last_map)
  also have "last (drop (length (?S @ [?inr]) - 10) (?S @ [?inr])) = last (?S @ [?inr])"
    by (rule last_drop) simp
  finally have lst: "last history = (IN, Some txt)" by (simp add: in_row_def)
  from join_lines_last [OF hne, of "[10]" history_line] lst obtain pre where
    pre: "join [10] (map history_line history) = pre @ js ''[IN] '' @ txt"
    by (auto simp: history_line_def interpolate_def js_def)
  then have jne: "join [10] (map history_line history) \<noteq> []" by (simp add: js_def)
  have prompt: "buildOrchestratorUserPrompt txt (js ''UNKNOWN'') history kb
           = prompt_latest @ txt @ prompt_history @ pre @ js ''[IN] '' @ txt @ prompt_guest
             @ js ''UNKNOWN'' @ prompt_knowledge
             @ (if join [10, 10] (map knowledge_block kb) \<noteq> []
                then join [10, 10] (map knowledge_block kb) else NO_KNOWLEDGE)
             @ prompt_task"
    using jne pre by (simp add: buildOrchestratorUserPrompt_def Let_def js_def)
  have wt: "webhook_try e b w
         = (case orchestrator_try (JSON_parse e)
                  (llm e (trim (buildOrchestratorUserPrompt txt (js ''UNKNOWN'') history kb))) of
              Inl err \<Rightarrow> persist_outcome e frm (js ''UNKNOWN'') i ORCH_FALLBACK w1
            | Inr r \<Rightarrow> persist_outcome e frm (js ''UNKNOWN'') i r w1)"
    using pf ri
    by (simp add: webhook_try_def runOrchestratorLLM_def getGuestState_def Let_def split: sum.split)
  from h1 len hne lst prompt wt show ?thesis by blast
qed

text \<open>C10 on the sample data: the earlier message of the sender, then the new one.\<close>

theorem history_ends_with_inbound_message_witness:
  "\<exists>w1.
     p_from (parseSmsProviderPayload (now sample_env) sample_body) = Some (js ''01011112222'') \<and>
     p_text (parseSmsProviderPayload (now sample_env) sample_body) = Some (js ''party?'') \<and>
     pending sample_world = None \<and>
     record_inbound sample_env (js ''01011112222'') (js ''party?'')
         (p_receivedAt (parseSmsProviderPayload (now sample_env) sample_body)) sample_world
       = (Inr (3, [(IN, Some (js ''hello'')), (IN, Some (js ''party?''))], []), w1) \<and>
     last [(IN, Some (js ''hello'')), (IN, Some (js ''party?''))] = (IN, Some (js ''party?'')) \<and>
     (\<exists>pre. buildOrchestratorUserPrompt (js ''party?'') (js ''UNKNOWN'')
               [(IN, Some (js ''hello'')), (IN, Some (js ''party?''))] []
           = prompt_latest @ js ''party?'' @ prompt_history @ pre @ js ''[IN] '' @ js ''party?''
             @ prompt_guest @ js ''UNKNOWN'' @ prompt_knowledge @ NO_KNOWLEDGE @ prompt_task)"
proof -
  let ?p = "parseSmsProviderPayload (now sample_env) sample_body"
  define R where "R = record_inbound sample_env (js ''01011112222'') (js ''party?'')
         (p_receivedAt ?p) sample_world"
  have pf: "p_from ?p = Some (js ''01011112222'')" "p_text ?p = Some (js ''party?'')"
    "js ''01011112222'' \<noteq> []" "js ''party?'' \<noteq> []"
    by (simp_all add: parseSmsProviderPayload_def str_or_def sample_body_def js_def)
  have idle: "pending sample_world = None" by (simp add: sample_world_def)
  have "fst R = Inr (3, [(IN, Some (js ''hello'')), (IN, Some (js ''party?''))], [])"
    unfolding R_def by (simp add: handler_defs sample_defs)
  then have ri: "record_inbound sample_env (js ''01011112222'') (js ''party?'')
         (p_receivedAt ?p) sample_world
       = (Inr (3, [(IN, Some (js ''hello'')), (IN, Some (js ''party?''))], []), snd R)"
    by (simp add: R_def prod_eq_iff)
  note inst = history_ends_with_inbound_message [OF pf idle ri]
  from inst have l: "last [(IN, Some (js ''hello'')), (IN, Some (js ''party?''))] = (IN, Some (js ''party?''))"
    by blast
  from inst have "\<exists>pre. buildOrchestratorUserPrompt (js ''party?'') (js ''UNKNOWN'')
               [(IN, Some (js ''hello'')), (IN, Some (js ''party?''))] []
           = prompt_latest @ js ''party?'' @ prompt_history @ pre @ js ''[IN] '' @ js ''party?''
             @ prompt_guest @ js ''UNKNOWN'' @ prompt_knowledge
             @ (if join [10, 10] (map knowledge_block []) \<noteq> []
                then join [10, 10] (map knowledge_block []) else NO_KNOWLEDGE)
             @ prompt_task"
    by blast
  then have p: "\<exists>pre. buildOrchestratorUserPrompt (js ''party?'') (js ''UNKNOWN'')
               [(IN, Some (js ''hello'')), (IN, Some (js ''party?''))] []
           = prompt_latest @ js ''party?'' @ prompt_history @ pre @ js ''[IN] '' @ js ''party?''
             @ prompt_guest @ js ''UNKNOWN'' @ prompt_knowledge @ NO_KNOWLEDGE @ prompt_task"
    by simp
  from pf(1,2) idle ri l p show ?thesis by blast
qed

end
